theory Spec2Isabelle
  imports Main
begin

section \<open>Strings of the form fields\<close>

text \<open>
  The screens work on JavaScript strings. They are modelled as \<^typ>\<open>string\<close>, a
  \<^typ>\<open>char\<close> standing for one code unit below 256 (the Latin-1 range, which holds
  ASCII). Within that range \<open>String.prototype.trim\<close> strips TAB, LF, VT, FF, CR,
  SPACE and NBSP from both ends, \<open>toLowerCase\<close> maps \<open>A\<close>..\<open>Z\<close> and the
  accented capitals \<open>0xC0\<close>..\<open>0xDE\<close> (without the multiplication sign
  \<open>0xD7\<close>) to the letter 32 places further, and the regular expression atom
  \<open>.\<close> accepts every code unit but LF and CR.
\<close>

definition isWhiteSpace :: "char \<Rightarrow> bool" where
  "isWhiteSpace c = (of_char c \<in> {9, 10, 11, 12, 13, 32, 160 :: nat})"

definition isLineTerminator :: "char \<Rightarrow> bool" where
  "isLineTerminator c = (of_char c \<in> {10, 13 :: nat})"

definition trim :: "string \<Rightarrow> string" where
  "trim s = rev (dropWhile isWhiteSpace (rev (dropWhile isWhiteSpace s)))"

definition isUpper :: "char \<Rightarrow> bool" where
  "isUpper c =
     (let n = of_char c :: nat
      in (65 \<le> n \<and> n \<le> 90) \<or> (192 \<le> n \<and> n \<le> 222 \<and> n \<noteq> 215))"

definition lowerChar :: "char \<Rightarrow> char" where
  "lowerChar c = (if isUpper c then char_of (of_char c + 32 :: nat) else c)"

definition toLowerCase :: "string \<Rightarrow> string" where
  "toLowerCase s = map lowerChar s"

text \<open>\<open>const normalizeNim = (value: string) => value.trim().toLowerCase();\<close>\<close>

definition normalizeNim :: "string \<Rightarrow> string" where
  "normalizeNim v = toLowerCase (trim v)"

text \<open>\<open>const trimValue = (value: string) => value.trim();\<close>\<close>

definition trimValue :: "string \<Rightarrow> string" where
  "trimValue v = trim v"

subsection \<open>The email pattern\<close>

text \<open>
  \<open>const emailRegex = /.+@.+\..+/;\<close> is a sequence of five atoms: a run \<open>.+\<close>,
  the literal \<open>@\<close>, a run, the literal dot, a run. \<open>emailRegex.test\<close> has no
  anchors, so it succeeds when the sequence matches at some start position.
\<close>

datatype atom = DotPlus | Lit char

text \<open>The remainders left by \<open>.+\<close>: one for every non-empty run it can take.\<close>

fun dotPlus :: "string \<Rightarrow> string list" where
  "dotPlus [] = []"
| "dotPlus (c # cs) = (if isLineTerminator c then [] else cs # dotPlus cs)"

fun matchFrom :: "atom list \<Rightarrow> string \<Rightarrow> bool" where
  "matchFrom [] s = True"
| "matchFrom (Lit a # r) s = (case s of [] \<Rightarrow> False | c # cs \<Rightarrow> c = a \<and> matchFrom r cs)"
| "matchFrom (DotPlus # r) s = list_ex (\<lambda>t. matchFrom r t) (dotPlus s)"

fun startPositions :: "string \<Rightarrow> string list" where
  "startPositions [] = [[]]"
| "startPositions (c # cs) = (c # cs) # startPositions cs"

definition regexTest :: "atom list \<Rightarrow> string \<Rightarrow> bool" where
  "regexTest r s = list_ex (matchFrom r) (startPositions s)"

definition emailRegex :: "atom list" where
  "emailRegex = [DotPlus, Lit CHR ''@'', DotPlus, Lit CHR ''.'', DotPlus]"

section \<open>Data of the screens\<close>

text \<open>\<open>AUTH_MODES\<close>, and the two destinations of \<open>RootStackParamList\<close>.\<close>

datatype auth_mode = login | register

datatype route = Login | Mahasiswa

text \<open>\<open>initialFormState\<close>: the four text inputs.\<close>

record form_state =
  form_nim :: string
  form_nama :: string
  form_email :: string
  form_password :: string

definition initialFormState :: form_state where
  "initialFormState =
     \<lparr>form_nim = [], form_nama = [], form_email = [], form_password = []\<rparr>"

text \<open>
  The argument of \<open>persistUser\<close> is \<open>{nim: string; nama: string; email?: string}\<close>;
  the object of \<open>buildUserPayload\<close> has these fields and \<open>password\<close>, and is passed
  where the narrower type is expected. A record and its extension say the same.
\<close>

record user =
  nim :: string
  nama :: string
  email :: "string option"

record payload = user +
  password :: string

text \<open>
  A document of the \<open>mahasiswa\<close> collection as the screens read it: every field may
  be missing (\<open>data.nim ?? ...\<close>). Values are taken to be strings, as the ones the
  screens write.
\<close>

record doc_data =
  data_nim :: "string option"
  data_nama :: "string option"
  data_email :: "string option"
  data_password :: "string option"
  data_nimKey :: "string option"

text \<open>
  A document snapshot: \<open>None\<close> when the document does not exist, its data otherwise.
  \<open>docExists\<close> is the value the source computes from \<open>snapshot.exists\<close>, as a
  method or as a property.
\<close>

type_synonym snapshot = "doc_data option"

definition docExists :: "snapshot \<Rightarrow> bool" where
  "docExists snap = (snap \<noteq> None)"

text \<open>A promise of the database either rejects or resolves with a value.\<close>

datatype 'a fetch = Rejected | Resolved 'a

text \<open>\<open>type Mahasiswa = {nim: string; nama: string; email: string}\<close>, a row of the list.\<close>

record mahasiswa =
  row_nim :: string
  row_nama :: string
  row_email :: string

text \<open>What a handler does to the outside, in the order it does it.\<close>

datatype effect =
    ConsoleLog string
  | ConsoleWarn string
  | ConsoleError string
  | Alert string
  | GetDocFromServer string "snapshot fetch"
  | GetDocFromCache string "snapshot fetch"
  | SetDoc string doc_data bool
  | GetDocs bool
  | StorageSet string string
  | StorageDelete string
  | NavigationReplace route

text \<open>The state of the \<open>LoginScreen\<close> component (its five \<open>useState\<close> cells).\<close>

record login_screen =
  authMode :: auth_mode
  form :: form_state
  currentUser :: "user option"
  loading :: bool
  hydrated :: bool

text \<open>The state of the \<open>MahasiswaScreen\<close> component.\<close>

record mahasiswa_screen =
  rows :: "mahasiswa list"
  rows_loading :: bool

text \<open>
  The world the handlers act on: the MMKV store, the \<open>mahasiswa\<close> collection on the
  server, the destination shown, both component states, and the effects so far.
\<close>

record world =
  storage :: "string \<rightharpoonup> string"
  remote :: "string \<rightharpoonup> doc_data"
  shown :: route
  loginScreen :: login_screen
  mahasiswaScreen :: mahasiswa_screen
  trace :: "effect list"

text \<open>
  What the database answers during one call of a handler: whether
  \<open>getDocFromServer\<close> resolves (then with the server's document), what
  \<open>getDocFromCache\<close> yields, and whether \<open>setDoc\<close> resolves. Building the
  document reference and reading a resolved snapshot are taken not to throw, and a
  promise of the database settles.
\<close>

record env =
  serverOnline :: bool
  cacheResult :: "snapshot fetch"
  writeOk :: bool

section \<open>Primitive effects\<close>

definition emit :: "effect \<Rightarrow> world \<Rightarrow> world" where
  "emit e w = w\<lparr>trace := trace w @ [e]\<rparr>"

definition storage_set :: "string \<Rightarrow> string \<Rightarrow> world \<Rightarrow> world" where
  "storage_set k v w = emit (StorageSet k v) (w\<lparr>storage := (storage w)(k \<mapsto> v)\<rparr>)"

text \<open>
  \<open>storage.delete?.(key)\<close> calls the method only where the MMKV instance has one;
  whether it has is the parameter \<open>supported\<close>.
\<close>

definition storage_delete :: "bool \<Rightarrow> string \<Rightarrow> world \<Rightarrow> world" where
  "storage_delete supported k w =
     (if supported then emit (StorageDelete k) (w\<lparr>storage := (storage w)(k := None)\<rparr>)
      else w)"

definition navigation_replace :: "route \<Rightarrow> world \<Rightarrow> world" where
  "navigation_replace r w = emit (NavigationReplace r) (w\<lparr>shown := r\<rparr>)"

definition getDocFromServer :: "env \<Rightarrow> string \<Rightarrow> world \<Rightarrow> snapshot fetch \<times> world" where
  "getDocFromServer e k w =
     (let res = (if serverOnline e then Resolved (remote w k) else Rejected)
      in (res, emit (GetDocFromServer k res) w))"

definition getDocFromCache :: "env \<Rightarrow> string \<Rightarrow> world \<Rightarrow> snapshot fetch \<times> world" where
  "getDocFromCache e k w = (cacheResult e, emit (GetDocFromCache k (cacheResult e)) w)"

text \<open>
  \<open>setDoc\<close>: the flag is \<open>False\<close> when the promise rejects (the \<open>await\<close>
  throws), and then nothing was written.
\<close>

definition setDoc :: "env \<Rightarrow> string \<Rightarrow> doc_data \<Rightarrow> world \<Rightarrow> bool \<times> world" where
  "setDoc e k d w =
     (if writeOk e
      then (True, emit (SetDoc k d True) (w\<lparr>remote := (remote w)(k \<mapsto> d)\<rparr>))
      else (False, emit (SetDoc k d False) w))"

section \<open>LoginScreen\<close>

definition MAHASISWA_COLLECTION :: string where
  "MAHASISWA_COLLECTION = ''mahasiswa''"

definition STORAGE_KEYS :: "string list" where
  "STORAGE_KEYS = [''user_nim'', ''user_nama'', ''user_email'']"

definition setLoading :: "bool \<Rightarrow> world \<Rightarrow> world" where
  "setLoading b w = w\<lparr>loginScreen := (loginScreen w)\<lparr>loading := b\<rparr>\<rparr>"

definition setHydrated :: "bool \<Rightarrow> world \<Rightarrow> world" where
  "setHydrated b w = w\<lparr>loginScreen := (loginScreen w)\<lparr>hydrated := b\<rparr>\<rparr>"

definition setCurrentUser :: "user option \<Rightarrow> world \<Rightarrow> world" where
  "setCurrentUser u w = w\<lparr>loginScreen := (loginScreen w)\<lparr>currentUser := u\<rparr>\<rparr>"

definition setAuthMode :: "auth_mode \<Rightarrow> world \<Rightarrow> world" where
  "setAuthMode m w = w\<lparr>loginScreen := (loginScreen w)\<lparr>authMode := m\<rparr>\<rparr>"

definition resetForm :: "world \<Rightarrow> world" where
  "resetForm w = w\<lparr>loginScreen := (loginScreen w)\<lparr>form := initialFormState\<rparr>\<rparr>"

text \<open>
  The mount effect. \<open>nim && nama\<close> holds when both strings are stored and non-empty.
\<close>

definition truthy :: "string option \<Rightarrow> bool" where
  "truthy v = (case v of None \<Rightarrow> False | Some s \<Rightarrow> s \<noteq> [])"

definition coalesce :: "'a option \<Rightarrow> 'a \<Rightarrow> 'a" where
  "coalesce v d = (case v of None \<Rightarrow> d | Some x \<Rightarrow> x)"

definition mountEffect :: "world \<Rightarrow> world" where
  "mountEffect w =
     (let nim = storage w ''user_nim'';
          nama = storage w ''user_nama'';
          email = coalesce (storage w ''user_email'') []
      in if truthy nim \<and> truthy nama
         then navigation_replace Mahasiswa
                (setCurrentUser
                   (Some \<lparr>nim = coalesce nim [], nama = coalesce nama [], email = Some email\<rparr>) w)
         else setHydrated True w)"

definition persistUser :: "'a user_scheme \<Rightarrow> world \<Rightarrow> world" where
  "persistUser u w =
     storage_set ''user_email'' (coalesce (email u) [])
       (storage_set ''user_nama'' (nama u)
         (storage_set ''user_nim'' (nim u) w))"

definition clearPersistedUser :: "bool \<Rightarrow> world \<Rightarrow> world" where
  "clearPersistedUser supported w = fold (storage_delete supported) STORAGE_KEYS w"

definition validateForm :: "auth_mode \<Rightarrow> form_state \<Rightarrow> string option" where
  "validateForm m f =
     (let nim = trimValue (form_nim f);
          password = trimValue (form_password f)
      in if nim = [] then Some ''NIM wajib diisi.''
         else if password = [] then Some ''Password wajib diisi.''
         else if m = register then
           (if trimValue (form_nama f) = [] then Some ''Nama wajib diisi.''
            else if trimValue (form_email f) = [] then Some ''Email wajib diisi.''
            else if \<not> regexTest emailRegex (trimValue (form_email f))
              then Some ''Format email tidak valid.''
            else None)
         else None)"

definition buildUserPayload :: "form_state \<Rightarrow> payload" where
  "buildUserPayload f =
     \<lparr>nim = trimValue (form_nim f),
      nama = trimValue (form_nama f),
      email = Some (trimValue (form_email f)),
      password = form_password f\<rparr>"

text \<open>The object \<open>{...payload, nimKey}\<close> given to \<open>setDoc\<close>.\<close>

definition payloadDoc :: "payload \<Rightarrow> string \<Rightarrow> doc_data" where
  "payloadDoc p nimKey =
     \<lparr>data_nim = Some (nim p),
      data_nama = Some (nama p),
      data_email = email p,
      data_password = Some (password p),
      data_nimKey = Some nimKey\<rparr>"

text \<open>
  Lines 160 to 172: the read from the server, and from the cache when the first one
  throws. \<open>None\<close> is the early return after both have thrown.
\<close>

definition fetchSnapshot :: "env \<Rightarrow> string \<Rightarrow> world \<Rightarrow> (snapshot \<times> bool) option \<times> world" where
  "fetchSnapshot e nimKey w =
     (case getDocFromServer e nimKey w of
        (Resolved snap, w1) \<Rightarrow> (Some (snap, False), w1)
      | (Rejected, w1) \<Rightarrow>
          (let w2 = emit (ConsoleWarn ''Server fetch failed, fallback to cache:'') w1
           in case getDocFromCache e nimKey w2 of
                (Resolved snap, w3) \<Rightarrow> (Some (snap, True), w3)
              | (Rejected, w3) \<Rightarrow>
                  (None,
                   emit (Alert ''Tidak bisa mengakses data. Periksa koneksi.'')
                     (emit (ConsoleError ''Cache fetch failed:'') w3))))"

text \<open>The \<open>catch\<close> block around the whole body.\<close>

definition catchAuthError :: "world \<Rightarrow> world" where
  "catchAuthError w =
     emit (Alert ''Terjadi kesalahan. Coba lagi.'') (emit (ConsoleError ''Auth error:'') w)"

text \<open>The body of the \<open>try\<close> block, lines 157 to 229.\<close>

definition authBody :: "env \<Rightarrow> auth_mode \<Rightarrow> form_state \<Rightarrow> world \<Rightarrow> world" where
  "authBody e m f w =
     (let nimKey = normalizeNim (form_nim f);
          nimForDisplay = trimValue (form_nim f)
      in case fetchSnapshot e nimKey w of
           (None, w1) \<Rightarrow> w1
         | (Some (snap, usedCache), w1) \<Rightarrow>
             (let w2 = emit (ConsoleLog ''Auth attempt'') w1
              in if m = register \<and> usedCache
                 then emit (Alert ''Koneksi diperlukan untuk registrasi. Coba lagi.'') w2
                 else if m = register then
                   (if docExists snap then emit (Alert ''NIM sudah terdaftar.'') w2
                    else
                      (let p = buildUserPayload f
                       in case setDoc e nimKey (payloadDoc p nimKey) w2 of
                            (False, w3) \<Rightarrow> catchAuthError w3
                          | (True, w3) \<Rightarrow>
                              navigation_replace Mahasiswa
                                (resetForm
                                  (setCurrentUser (Some (user.truncate p))
                                    (persistUser p
                                      (emit (ConsoleLog ''Register success'') w3))))))
                 else
                   (case snap of
                      None \<Rightarrow> emit (Alert ''NIM belum terdaftar.'') w2
                    | Some d \<Rightarrow>
                        if data_password d \<noteq> Some (form_password f)
                        then emit (Alert ''Password salah.'') w2
                        else
                          (let u = \<lparr>nim = coalesce (data_nim d) nimForDisplay,
                                    nama = coalesce (data_nama d) ''Mahasiswa'',
                                    email = Some (coalesce (data_email d) [])\<rparr>
                           in navigation_replace Mahasiswa
                                (resetForm
                                  (setCurrentUser (Some u)
                                    (persistUser u w2)))))))"

text \<open>
  \<open>handleAuth\<close>: validation first; then the body between \<open>setLoading(true)\<close> and
  the \<open>finally\<close> block. The closure reads \<open>form\<close> and \<open>authMode\<close> as they were
  when the button was pressed.
\<close>

definition handleAuth :: "env \<Rightarrow> world \<Rightarrow> world" where
  "handleAuth e w =
     (let f = form (loginScreen w); m = authMode (loginScreen w)
      in case validateForm m f of
           Some validationMessage \<Rightarrow> emit (Alert validationMessage) w
         | None \<Rightarrow> setLoading False (authBody e m f (setLoading True w)))"

definition handleLocalLogout :: "bool \<Rightarrow> world \<Rightarrow> world" where
  "handleLocalLogout supported w =
     setAuthMode login (resetForm (setCurrentUser None (clearPersistedUser supported w)))"

text \<open>
  \<open>updateField\<close> and \<open>switchMode\<close>, the two handlers that edit the form.
\<close>

datatype field = Nim | Nama | Email | Password

definition setField :: "field \<Rightarrow> string \<Rightarrow> form_state \<Rightarrow> form_state" where
  "setField fld v f =
     (case fld of
        Nim \<Rightarrow> f\<lparr>form_nim := v\<rparr>
      | Nama \<Rightarrow> f\<lparr>form_nama := v\<rparr>
      | Email \<Rightarrow> f\<lparr>form_email := v\<rparr>
      | Password \<Rightarrow> f\<lparr>form_password := v\<rparr>)"

definition updateField :: "field \<Rightarrow> string \<Rightarrow> world \<Rightarrow> world" where
  "updateField fld v w =
     w\<lparr>loginScreen := (loginScreen w)\<lparr>form := setField fld v (form (loginScreen w))\<rparr>\<rparr>"

definition switchMode :: "auth_mode \<Rightarrow> world \<Rightarrow> world" where
  "switchMode targetMode w =
     (if authMode (loginScreen w) = targetMode then w
      else resetForm (setAuthMode targetMode w))"

text \<open>
  Mounting the screen: fresh \<open>useState\<close> cells, then the effect. What is rendered
  depends on \<open>hydrated\<close> alone.
\<close>

definition loginScreenInit :: login_screen where
  "loginScreenInit =
     \<lparr>authMode = login, form = initialFormState, currentUser = None,
      loading = False, hydrated = False\<rparr>"

definition mountLogin :: "world \<Rightarrow> world" where
  "mountLogin w = mountEffect (w\<lparr>loginScreen := loginScreenInit\<rparr>)"

datatype login_view = LoadingView | FormView

definition renderLogin :: "login_screen \<Rightarrow> login_view" where
  "renderLogin ls = (if \<not> hydrated ls then LoadingView else FormView)"

section \<open>MahasiswaScreen\<close>

definition handleLogout :: "world \<Rightarrow> world" where
  "handleLogout w =
     navigation_replace Login (fold (\<lambda>key. storage_set key []) STORAGE_KEYS w)"

definition setData :: "mahasiswa list \<Rightarrow> world \<Rightarrow> world" where
  "setData l w = w\<lparr>mahasiswaScreen := (mahasiswaScreen w)\<lparr>rows := l\<rparr>\<rparr>"

definition setRowsLoading :: "bool \<Rightarrow> world \<Rightarrow> world" where
  "setRowsLoading b w = w\<lparr>mahasiswaScreen := (mahasiswaScreen w)\<lparr>rows_loading := b\<rparr>\<rparr>"

text \<open>One document of the scan, with its identifier, as a row of the list.\<close>

definition toRow :: "string \<times> doc_data \<Rightarrow> mahasiswa" where
  "toRow docSnap =
     (case docSnap of (snapId, d) \<Rightarrow>
        \<lparr>row_nim = coalesce (data_nim d) snapId,
         row_nama = coalesce (data_nama d) ''Mahasiswa'',
         row_email = coalesce (data_email d) []\<rparr>)"

text \<open>
  \<open>fetchData\<close>; its argument is what \<open>getDocs\<close> yields, the documents of the
  collection or a rejection.
\<close>

definition fetchData :: "(string \<times> doc_data) list fetch \<Rightarrow> world \<Rightarrow> world" where
  "fetchData scan w =
     setRowsLoading False
       (case scan of
          Resolved snap \<Rightarrow> setData (map toRow snap) (emit (GetDocs True) w)
        | Rejected \<Rightarrow>
            emit (ConsoleError ''Failed to fetch mahasiswa'') (emit (GetDocs False) w))"

definition mahasiswaScreenInit :: mahasiswa_screen where
  "mahasiswaScreenInit = \<lparr>rows = [], rows_loading = True\<rparr>"

definition mountMahasiswa :: "(string \<times> doc_data) list fetch \<Rightarrow> world \<Rightarrow> world" where
  "mountMahasiswa scan w = fetchData scan (w\<lparr>mahasiswaScreen := mahasiswaScreenInit\<rparr>)"

text \<open>
  The body of the screen: the spinner while loading, else the \<open>FlatList\<close>, which
  shows \<open>ListEmptyComponent\<close> for an empty \<open>data\<close>.
\<close>

datatype list_view = Spinner | EmptyText string | Cards "mahasiswa list"

definition renderMahasiswa :: "mahasiswa_screen \<Rightarrow> list_view" where
  "renderMahasiswa ms =
     (if rows_loading ms then Spinner
      else if rows ms = [] then EmptyText ''Belum ada data mahasiswa.''
      else Cards (rows ms))"

section \<open>Sequences of user actions\<close>

text \<open>
  Everything a user or the navigator can trigger, with what the database answers
  where a handler asks it. \<open>step\<close> applies an action in any state, so a run
  covers every interleaving the two screens allow, and more.
\<close>

datatype action =
    MountLogin
  | UpdateField field string
  | SwitchMode auth_mode
  | Submit env
  | LocalLogout bool
  | MountMahasiswa "(string \<times> doc_data) list fetch"
  | Logout

fun step :: "action \<Rightarrow> world \<Rightarrow> world" where
  "step MountLogin w = mountLogin w"
| "step (UpdateField fld v) w = updateField fld v w"
| "step (SwitchMode m) w = switchMode m w"
| "step (Submit e) w = handleAuth e w"
| "step (LocalLogout supported) w = handleLocalLogout supported w"
| "step (MountMahasiswa scan) w = mountMahasiswa scan w"
| "step Logout w = handleLogout w"

definition run :: "action list \<Rightarrow> world \<Rightarrow> world" where
  "run acts w = fold step acts w"

text \<open>The effects one submit adds, and whether it reached the navigation to the list.\<close>

definition submitEffects :: "env \<Rightarrow> world \<Rightarrow> effect list" where
  "submitEffects e w = drop (length (trace w)) (trace (handleAuth e w))"

definition succeeded :: "env \<Rightarrow> world \<Rightarrow> bool" where
  "succeeded e w = (NavigationReplace Mahasiswa \<in> set (submitEffects e w))"

text \<open>
  The errors of the specification, and the text of the alert that reports each.
\<close>

datatype auth_error =
    ValidationError string
  | ConnectivityError
  | ConnectivityRequiredError
  | DuplicateIdentifierError
  | NotFoundError
  | InvalidCredentialError
  | UnexpectedError

fun alertText :: "auth_error \<Rightarrow> string" where
  "alertText (ValidationError m) = m"
| "alertText ConnectivityError = ''Tidak bisa mengakses data. Periksa koneksi.''"
| "alertText ConnectivityRequiredError = ''Koneksi diperlukan untuk registrasi. Coba lagi.''"
| "alertText DuplicateIdentifierError = ''NIM sudah terdaftar.''"
| "alertText NotFoundError = ''NIM belum terdaftar.''"
| "alertText InvalidCredentialError = ''Password salah.''"
| "alertText UnexpectedError = ''Terjadi kesalahan. Coba lagi.''"

text \<open>The messages \<open>validateForm\<close> can return.\<close>

definition validationMessages :: "string list" where
  "validationMessages =
     [''NIM wajib diisi.'', ''Password wajib diisi.'', ''Nama wajib diisi.'',
      ''Email wajib diisi.'', ''Format email tidak valid.'']"

text \<open>
  The alerts among a list of effects. A submit is rejected with an error when the
  alert of that error is the one alert it raises.
\<close>

fun alerts :: "effect list \<Rightarrow> string list" where
  "alerts [] = []"
| "alerts (Alert m # xs) = m # alerts xs"
| "alerts (_ # xs) = alerts xs"

definition rejectedWith :: "env \<Rightarrow> world \<Rightarrow> auth_error \<Rightarrow> bool" where
  "rejectedWith e w err = (alerts (submitEffects e w) = [alertText err])"

text \<open>
  The effects that change nothing outside the handler: reads of the database and
  lines on the console.
\<close>

fun isReadOrLog :: "effect \<Rightarrow> bool" where
  "isReadOrLog (ConsoleLog _) = True"
| "isReadOrLog (ConsoleWarn _) = True"
| "isReadOrLog (ConsoleError _) = True"
| "isReadOrLog (GetDocFromServer _ _) = True"
| "isReadOrLog (GetDocFromCache _ _) = True"
| "isReadOrLog _ = False"

text \<open>The writes to the local store among a list of effects, as key and value.\<close>

fun storageWrites :: "effect list \<Rightarrow> (string \<times> string) list" where
  "storageWrites [] = []"
| "storageWrites (StorageSet k v # xs) = (k, v) # storageWrites xs"
| "storageWrites (_ # xs) = storageWrites xs"

text \<open>
  The invariant of the session record: of the three keys, none holds a value or
  each does. An empty string, as \<open>handleLogout\<close> stores it, is a value held.
\<close>

definition holdsValue :: "(string \<rightharpoonup> string) \<Rightarrow> string \<Rightarrow> bool" where
  "holdsValue s k = (s k \<noteq> None)"

definition sessionAllOrNothing :: "(string \<rightharpoonup> string) \<Rightarrow> bool" where
  "sessionAllOrNothing s =
     (list_all (\<lambda>k. \<not> holdsValue s k) STORAGE_KEYS \<or> list_all (holdsValue s) STORAGE_KEYS)"

text \<open>
  The same invariant with the reading of the mount effect, for which a key is
  present when a non-empty string is stored under it. For this reading the
  records must be as the data model has them: \<open>email\<close> present and not empty,
  \<open>nim\<close> and \<open>nama\<close> not the empty string; in the collection, and in what
  the cache yields to a submit.
\<close>

definition sessionWhole :: "(string \<rightharpoonup> string) \<Rightarrow> bool" where
  "sessionWhole s =
     (list_all (\<lambda>k. \<not> truthy (s k)) STORAGE_KEYS \<or> list_all (\<lambda>k. truthy (s k)) STORAGE_KEYS)"

definition wellFormedDoc :: "doc_data \<Rightarrow> bool" where
  "wellFormedDoc d =
     (truthy (data_email d) \<and> data_nim d \<noteq> Some [] \<and> data_nama d \<noteq> Some [])"

definition recordsWellFormed :: "world \<Rightarrow> bool" where
  "recordsWellFormed w = (\<forall>k d. remote w k = Some d \<longrightarrow> wellFormedDoc d)"

fun wellFormedAction :: "action \<Rightarrow> bool" where
  "wellFormedAction (Submit e) =
     (case cacheResult e of Resolved (Some d) \<Rightarrow> wellFormedDoc d | _ \<Rightarrow> True)"
| "wellFormedAction _ = True"

text \<open>
  The snapshot the lookup of lines 160 to 172 resolves to, if it does.
\<close>

definition resolvedSnapshot :: "env \<Rightarrow> world \<Rightarrow> string \<Rightarrow> snapshot option" where
  "resolvedSnapshot e w k = map_option fst (fst (fetchSnapshot e k w))"

subsection \<open>Example inputs\<close>

text \<open>A fresh installation: nothing stored, nobody registered, the login screen.\<close>

definition freshWorld :: world where
  "freshWorld =
     \<lparr>storage = Map.empty, remote = Map.empty, shown = Login,
      loginScreen = loginScreenInit, mahasiswaScreen = mahasiswaScreenInit, trace = []\<rparr>"

text \<open>Choosing a mode and typing the four fields.\<close>

definition fillForm :: "auth_mode \<Rightarrow> string \<Rightarrow> string \<Rightarrow> string \<Rightarrow> string \<Rightarrow> action list" where
  "fillForm m a b c d =
     [SwitchMode m, UpdateField Nim a, UpdateField Nama b, UpdateField Email c,
      UpdateField Password d]"

definition online :: env where
  "online = \<lparr>serverOnline = True, cacheResult = Rejected, writeOk = True\<rparr>"

definition offlineCached :: "snapshot \<Rightarrow> env" where
  "offlineCached snap = \<lparr>serverOnline = False, cacheResult = Resolved snap, writeOk = True\<rparr>"

text \<open>
  The record the specification's scenarios register, and the world after that
  registration, the visit of the list and the logout.
\<close>

definition janeDoc :: doc_data where
  "janeDoc =
     \<lparr>data_nim = Some ''A100'', data_nama = Some ''Jane Doe'',
      data_email = Some ''jane@x.edu'', data_password = Some ''pw1'',
      data_nimKey = Some ''a100''\<rparr>"


text \<open>
  Two registrations whose identifiers differ in white space and case: the world
  in which the first form is filled in, and what happens between its submit and
  the second one.
\<close>

definition firstAttempt :: world where
  "firstAttempt =
     run (MountLogin # fillForm register '' A100 '' ''Jane Doe'' ''jane@x.edu'' ''pw1'')
       freshWorld"

definition untilSecondAttempt :: "string \<Rightarrow> action list" where
  "untilSecondAttempt pw =
     [MountMahasiswa (Resolved [(''a100'', janeDoc)]), Logout, MountLogin]
     @ fillForm register ''a100'' ''Jane Doe'' ''jane@x.edu'' pw"

text \<open>
  A registration with the credential \<open>pw1\<close> between two spaces, and the way to a
  login with a given credential.
\<close>

definition spacedRegistration :: world where
  "spacedRegistration =
     run (MountLogin # fillForm register ''A100'' ''Jane Doe'' ''jane@x.edu'' '' pw1 '')
       freshWorld"

definition untilLogin :: "string \<Rightarrow> action list" where
  "untilLogin pw =
     [MountMahasiswa Rejected, Logout, MountLogin] @ fillForm login ''A100'' [] [] pw"

section \<open>Properties\<close>

lemmas world_defs =
  emit_def storage_set_def storage_delete_def navigation_replace_def
  setLoading_def setHydrated_def setCurrentUser_def setAuthMode_def resetForm_def
  setData_def setRowsLoading_def

lemmas handler_defs =
  handleAuth_def authBody_def setDoc_def persistUser_def catchAuthError_def docExists_def

lemma coalesce_simps [simp]: "coalesce (Some x) d = x" "coalesce None d = d"
  by (simp_all add: coalesce_def)

subsection \<open>Trimming and lower case\<close>

lemma isWhiteSpace_lowerChar [simp]: "isWhiteSpace (lowerChar c) = isWhiteSpace c"
  by (auto simp: lowerChar_def isUpper_def isWhiteSpace_def Let_def)

lemma dropWhile_toLowerCase:
  "dropWhile isWhiteSpace (toLowerCase s) = toLowerCase (dropWhile isWhiteSpace s)"
  by (induction s) (simp_all add: toLowerCase_def)

lemma trim_toLowerCase: "trim (toLowerCase s) = toLowerCase (trim s)"
proof -
  have r: "rev (toLowerCase x) = toLowerCase (rev x)" for x
    by (simp add: toLowerCase_def rev_map)
  show ?thesis
    by (simp add: trim_def dropWhile_toLowerCase r)
qed

lemma dropWhile_all: "list_all P a \<Longrightarrow> dropWhile P (a @ s) = dropWhile P s"
  by (induction a) simp_all

lemma trim_blank: "list_all isWhiteSpace s \<Longrightarrow> trim s = []"
proof -
  assume "list_all isWhiteSpace s"
  then have d: "dropWhile isWhiteSpace s = []" by (simp add: list_all_iff)
  show ?thesis unfolding trim_def d by simp
qed

lemma trim_surround:
  assumes "list_all isWhiteSpace a" "list_all isWhiteSpace b"
  shows "trim (a @ s @ b) = trim s"
proof (cases "list_all isWhiteSpace s")
  case True
  with assms have "list_all isWhiteSpace (a @ s @ b)" by simp
  then have "trim (a @ s @ b) = []" by (rule trim_blank)
  moreover have "trim s = []" using True by (rule trim_blank)
  ultimately show ?thesis by simp
next
  case False
  have 1: "dropWhile isWhiteSpace (a @ s @ b) = dropWhile isWhiteSpace (s @ b)"
    using assms(1) by (rule dropWhile_all)
  have rb: "list_all isWhiteSpace (rev b)" using assms(2) by (simp add: list_all_iff)
  from False have "dropWhile isWhiteSpace (s @ b) = dropWhile isWhiteSpace s @ b"
    by (auto simp: list_all_iff dropWhile_append1)
  with 1 show ?thesis
    by (simp add: trim_def dropWhile_all[OF rb])
qed

lemma normalizeNim_same_key:
  assumes "a = ws1 @ c1 @ ws2" "b = ws3 @ c2 @ ws4"
      and "list_all isWhiteSpace (ws1 @ ws2 @ ws3 @ ws4)"
      and "toLowerCase c1 = toLowerCase c2"
  shows "normalizeNim a = normalizeNim b"
proof -
  have "normalizeNim a = toLowerCase (trim c1)"
    using assms(1,3) by (simp add: normalizeNim_def trim_surround)
  also have "\<dots> = trim (toLowerCase c2)"
    using assms(4) by (simp add: trim_toLowerCase[symmetric])
  also have "\<dots> = normalizeNim b"
    using assms(2,3) by (simp add: normalizeNim_def trim_surround trim_toLowerCase)
  finally show ?thesis .
qed

lemma dropWhile_rev_last:
  "(z \<noteq> [] \<Longrightarrow> \<not> P (last z)) \<Longrightarrow> dropWhile P (rev z) = rev z"
  by (cases z rule: rev_cases) simp_all

lemma trim_idem [simp]: "trim (trim s) = trim s"
proof -
  let ?D = "dropWhile isWhiteSpace"
  let ?z = "?D (rev (?D s))"
  have "?D (rev ?z) = rev ?z"
  proof (rule dropWhile_rev_last)
    assume nz: "?z \<noteq> []"
    then have ne: "?D s \<noteq> []" by (metis dropWhile.simps(1) rev.simps(1))
    then have h: "\<not> isWhiteSpace (hd (?D s))" by (rule hd_dropWhile)
    have "last ?z = last (rev (?D s))"
      using nz by (metis append_Nil2 last_appendR takeWhile_dropWhile_id)
    then have "last ?z = hd (?D s)" using ne by (simp add: last_rev)
    with h show "\<not> isWhiteSpace (last ?z)" by simp
  qed
  then show ?thesis
    by (simp add: trim_def)
qed

lemma toLowerCase_Nil [simp]: "(toLowerCase s = []) = (s = [])"
  by (simp add: toLowerCase_def)

lemma trim_edges:
  assumes "trim s \<noteq> []"
  shows "\<not> isWhiteSpace (hd (trim s)) \<and> \<not> isWhiteSpace (last (trim s))"
proof -
  let ?D = "dropWhile isWhiteSpace"
  let ?z = "?D (rev (?D s))"
  from assms have nz: "?z \<noteq> []" by (simp add: trim_def)
  then have a: "\<not> isWhiteSpace (hd ?z)" by (rule hd_dropWhile)
  from nz have ne: "?D s \<noteq> []" by (metis dropWhile.simps(1) rev.simps(1))
  then have h: "\<not> isWhiteSpace (hd (?D s))" by (rule hd_dropWhile)
  have "last ?z = last (rev (?D s))"
    using nz by (metis append_Nil2 last_appendR takeWhile_dropWhile_id)
  then have b: "last ?z = hd (?D s)" using ne by (simp add: last_rev)
  from a b h nz show ?thesis
    by (simp add: trim_def hd_rev last_rev)
qed

lemma trim_fixed:
  assumes "s \<noteq> []" "\<not> isWhiteSpace (hd s)" "\<not> isWhiteSpace (last s)"
  shows "trim s = s"
proof -
  from assms(1,2) have 1: "dropWhile isWhiteSpace s = s" by (cases s) auto
  from assms(1,3) have 2: "dropWhile isWhiteSpace (rev s) = rev s"
    by (cases s rule: rev_cases) auto
  show ?thesis unfolding trim_def 1 2 by simp
qed

text \<open>A non-empty string is changed by trimming exactly when it starts or ends in white space.\<close>

lemma trim_changes:
  assumes "s \<noteq> []"
  shows "(trim s \<noteq> s) = (isWhiteSpace (hd s) \<or> isWhiteSpace (last s))"
proof
  assume "trim s \<noteq> s"
  with assms show "isWhiteSpace (hd s) \<or> isWhiteSpace (last s)"
    using trim_fixed[of s] by blast
next
  assume e: "isWhiteSpace (hd s) \<or> isWhiteSpace (last s)"
  show "trim s \<noteq> s"
  proof
    assume t: "trim s = s"
    with assms have "trim s \<noteq> []" by simp
    from trim_edges[OF this] t e show False by simp
  qed
qed

subsection \<open>The pattern on a trimmed string\<close>

lemma matchFrom_append: "matchFrom r s \<Longrightarrow> matchFrom r (s @ t)"
proof (induction r s rule: matchFrom.induct)
  case (1 s)
  show ?case by simp
next
  case (2 a r s)
  then show ?case by (cases s) auto
next
  case (3 r s)
  have sub: "(\<lambda>x. x @ t) ` set (dotPlus s) \<subseteq> set (dotPlus (s @ t))" for s
    by (induction s) auto
  from 3 show ?case
    using sub[of s] by (auto simp: list_ex_iff)
qed

lemma startPositions_append: "set (startPositions s) \<subseteq> set (startPositions (a @ s))"
  by (induction a) auto

lemma startPositions_self: "s \<in> set (startPositions s)"
  by (cases s) auto

lemma startPositions_suffix: "x \<in> set (startPositions s) \<Longrightarrow> \<exists>a. s = a @ x"
proof (induction s)
  case Nil
  then show ?case by simp
next
  case (Cons c cs)
  then show ?case
    by (metis append_Cons append_Nil set_ConsD startPositions.simps(2))
qed

lemma regexTest_embedded: "regexTest r s \<Longrightarrow> regexTest r (a @ s @ b)"
proof -
  assume "regexTest r s"
  then obtain x where x: "x \<in> set (startPositions s)" "matchFrom r x"
    by (auto simp: regexTest_def list_ex_iff)
  then obtain p where p: "s = p @ x" by (auto dest: startPositions_suffix)
  have "matchFrom r (x @ b)" using x(2) by (rule matchFrom_append)
  moreover have "x @ b \<in> set (startPositions ((a @ p) @ (x @ b)))"
    using startPositions_append[of "x @ b" "a @ p"] startPositions_self[of "x @ b"] by blast
  ultimately show ?thesis
    unfolding regexTest_def list_ex_iff using p by auto
qed

lemma trim_decompose: "\<exists>a b. s = a @ trim s @ b"
proof -
  let ?x = "dropWhile isWhiteSpace s"
  have "s = takeWhile isWhiteSpace s @ ?x" by simp
  moreover have "?x = trim s @ rev (takeWhile isWhiteSpace (rev ?x))"
    unfolding trim_def
    by (metis rev_append rev_rev_ident takeWhile_dropWhile_id)
  ultimately show ?thesis by metis
qed

text \<open>
  The pattern has no anchors, so a string whose trimmed form matches it matches it
  too: a field that fails the pattern as typed fails it after trimming.
\<close>

lemma regexTest_trimValue: "regexTest r (trimValue s) \<Longrightarrow> regexTest r s"
  using trim_decompose[of s] regexTest_embedded[of r "trim s"]
  by (metis trimValue_def)

subsection \<open>Validation comes first\<close>

lemma validateForm_messages:
  "validateForm m f = Some msg \<Longrightarrow> msg \<in> set validationMessages"
  by (auto simp: validateForm_def validationMessages_def Let_def split: if_splits)

lemma handleAuth_invalid:
  "validateForm (authMode (loginScreen w)) (form (loginScreen w)) = Some msg \<Longrightarrow>
   handleAuth e w = emit (Alert msg) w"
  by (simp add: handleAuth_def)

lemma validateForm_password:
  "(validateForm m f = Some ''Password wajib diisi.'') =
     (trimValue (form_nim f) \<noteq> [] \<and> trimValue (form_password f) = [])"
  by (simp add: validateForm_def Let_def)

lemma validateForm_blank_password:
  "trimValue (form_password f) = [] \<Longrightarrow>
   validateForm m f = Some ''NIM wajib diisi.'' \<or> validateForm m f = Some ''Password wajib diisi.''"
  by (simp add: validateForm_def Let_def)

lemma validateForm_login:
  "(validateForm login f = None) =
     (trimValue (form_nim f) \<noteq> [] \<and> trimValue (form_password f) \<noteq> [])"
  by (simp add: validateForm_def Let_def)

lemma validateForm_register_fields:
  "validateForm register f = None \<Longrightarrow>
     trimValue (form_nim f) \<noteq> [] \<and> trimValue (form_password f) \<noteq> []
     \<and> trimValue (form_nama f) \<noteq> [] \<and> trimValue (form_email f) \<noteq> []"
  by (simp add: validateForm_def Let_def split: if_splits)

lemma normalizeNim_Nil: "(normalizeNim s = []) = (trimValue s = [])"
  by (simp add: normalizeNim_def trimValue_def)

text \<open>
  C7. A submit in register mode whose email, trimmed as \<open>validateForm\<close> trims it,
  does not match the pattern ends in the alert of a validation message and nothing
  else: the world afterwards is the world before with that one alert added to the
  effects, so there is no read from the server or the cache, no write, and both
  stores are as they were. By \<open>regexTest_trimValue\<close> this covers every email that
  fails the pattern as typed.
\<close>

theorem register_bad_email_rejected_locally:
  assumes "authMode (loginScreen w) = register"
      and "\<not> regexTest emailRegex (trimValue (form_email (form (loginScreen w))))"
  shows "\<exists>m \<in> set validationMessages.
           handleAuth e w = w\<lparr>trace := trace w @ [Alert (alertText (ValidationError m))]\<rparr>"
proof -
  have "\<exists>msg. validateForm register (form (loginScreen w)) = Some msg"
    using assms(2) by (simp add: validateForm_def Let_def)
  then obtain msg where m: "validateForm register (form (loginScreen w)) = Some msg" ..
  then have "handleAuth e w = emit (Alert msg) w"
    using assms(1) by (simp add: handleAuth_invalid)
  with m show ?thesis
    by (auto simp: emit_def dest: validateForm_messages)
qed

text \<open>The scenario of the specification: the email \<open>not-an-email\<close>.\<close>

theorem register_bad_email_rejected_locally_witness:
  "authMode (loginScreen
      (run (fillForm register ''A100'' ''Jane Doe'' ''not-an-email'' ''pw1'') freshWorld)) = register
   \<and> \<not> regexTest emailRegex (trimValue (form_email (form (loginScreen
      (run (fillForm register ''A100'' ''Jane Doe'' ''not-an-email'' ''pw1'') freshWorld)))))
   \<and> (\<exists>m \<in> set validationMessages.
        handleAuth online
          (run (fillForm register ''A100'' ''Jane Doe'' ''not-an-email'' ''pw1'') freshWorld) =
        (run (fillForm register ''A100'' ''Jane Doe'' ''not-an-email'' ''pw1'') freshWorld)
          \<lparr>trace :=
             trace (run (fillForm register ''A100'' ''Jane Doe'' ''not-an-email'' ''pw1'') freshWorld)
             @ [Alert (alertText (ValidationError m))]\<rparr>)"
proof -
  let ?w = "run (fillForm register ''A100'' ''Jane Doe'' ''not-an-email'' ''pw1'') freshWorld"
  have h1: "authMode (loginScreen ?w) = register"
    by code_simp
  have h2: "\<not> regexTest emailRegex (trimValue (form_email (form (loginScreen ?w))))"
    by code_simp
  show ?thesis
    using register_bad_email_rejected_locally[OF h1 h2, of online] h1 h2 by blast
qed

subsection \<open>The lookup\<close>

lemma fetchSnapshot_cache:
  "\<not> serverOnline e \<Longrightarrow> cacheResult e = Resolved snap \<Longrightarrow>
   fetchSnapshot e k w =
     (Some (snap, True),
      w\<lparr>trace := trace w @ [GetDocFromServer k Rejected,
          ConsoleWarn ''Server fetch failed, fallback to cache:'',
          GetDocFromCache k (Resolved snap)]\<rparr>)"
  by (simp add: fetchSnapshot_def getDocFromServer_def getDocFromCache_def emit_def)

lemma fetchSnapshot_server:
  "serverOnline e \<Longrightarrow>
   fetchSnapshot e k w =
     (Some (remote w k, False),
      w\<lparr>trace := trace w @ [GetDocFromServer k (Resolved (remote w k))]\<rparr>)"
  by (simp add: fetchSnapshot_def getDocFromServer_def emit_def Let_def)

lemma fetchSnapshot_none:
  "\<not> serverOnline e \<Longrightarrow> cacheResult e = Rejected \<Longrightarrow>
   fetchSnapshot e k w =
     (None,
      w\<lparr>trace := trace w @ [GetDocFromServer k Rejected,
          ConsoleWarn ''Server fetch failed, fallback to cache:'',
          GetDocFromCache k Rejected,
          ConsoleError ''Cache fetch failed:'',
          Alert ''Tidak bisa mengakses data. Periksa koneksi.'']\<rparr>)"
  by (simp add: fetchSnapshot_def getDocFromServer_def getDocFromCache_def emit_def Let_def)

text \<open>
  The lookup resolves to the server's document when the server answers, and to
  whatever the cache yields otherwise.
\<close>

lemma resolvedSnapshot_cases:
  "resolvedSnapshot e w k =
     (if serverOnline e then Some (remote w k)
      else case cacheResult e of Rejected \<Rightarrow> None | Resolved snap \<Rightarrow> Some snap)"
  by (cases "cacheResult e")
     (simp_all add: resolvedSnapshot_def fetchSnapshot_server fetchSnapshot_none
        fetchSnapshot_cache)

text \<open>
  A read from the cache that resolved is among the effects of a submit only if the
  form passed validation and the read from the server was rejected before.
\<close>

lemma cache_read_served:
  assumes "GetDocFromCache k (Resolved snap) \<in> set (submitEffects e w)"
  shows "validateForm (authMode (loginScreen w)) (form (loginScreen w)) = None
       \<and> \<not> serverOnline e \<and> cacheResult e = Resolved snap
       \<and> k = normalizeNim (form_nim (form (loginScreen w)))
       \<and> GetDocFromServer k Rejected \<in> set (submitEffects e w)"
proof (cases "validateForm (authMode (loginScreen w)) (form (loginScreen w))")
  case (Some msg)
  with assms show ?thesis
    by (simp add: submitEffects_def handleAuth_def emit_def)
next
  case None
  show ?thesis
  proof (cases "serverOnline e")
    case True
    with None assms show ?thesis
      by (cases "authMode (loginScreen w)")
         (auto simp: submitEffects_def handler_defs
            fetchSnapshot_server Let_def world_defs split: option.splits if_splits)
  next
    case False
    with None assms show ?thesis
      by (cases "cacheResult e"; cases "authMode (loginScreen w)")
         (auto simp: submitEffects_def handler_defs
            fetchSnapshot_none fetchSnapshot_cache Let_def world_defs
            split: option.splits if_splits)
  qed
qed

text \<open>
  C2. A submit in register mode whose read was served by the cache (the effect
  \<open>GetDocFromCache k (Resolved snap)\<close> is among its effects, which implies that the
  read from the server was rejected) raises the alert of
  \<open>ConnectivityRequiredError\<close>, whatever the cached snapshot \<open>snap\<close> holds. The
  effects are the two reads, two log lines and the alert: no \<open>setDoc\<close> and no
  write to the local store; of the world only \<open>loading\<close> (set by the
  \<open>finally\<close> block) and the effects change.
\<close>

theorem register_from_cache_rejected:
  assumes "authMode (loginScreen w) = register"
      and "GetDocFromCache k (Resolved snap) \<in> set (submitEffects e w)"
  shows "handleAuth e w =
           w\<lparr>loginScreen := (loginScreen w)\<lparr>loading := False\<rparr>,
             trace := trace w @
               [GetDocFromServer k Rejected,
                ConsoleWarn ''Server fetch failed, fallback to cache:'',
                GetDocFromCache k (Resolved snap),
                ConsoleLog ''Auth attempt'',
                Alert (alertText ConnectivityRequiredError)]\<rparr>"
proof -
  from cache_read_served[OF assms(2)] assms(1)
  have "validateForm register (form (loginScreen w)) = None" "\<not> serverOnline e"
    "cacheResult e = Resolved snap" "k = normalizeNim (form_nim (form (loginScreen w)))"
    by simp_all
  with assms(1) show ?thesis
    by (simp add: handleAuth_def authBody_def fetchSnapshot_cache Let_def world_defs)
qed

theorem register_from_cache_rejected_witness:
  "authMode (loginScreen
      (run (fillForm register ''A100'' ''Jane Doe'' ''jane@x.edu'' ''pw1'') freshWorld)) = register
   \<and> GetDocFromCache ''a100'' (Resolved (Some janeDoc)) \<in> set (submitEffects (offlineCached (Some janeDoc))
        (run (fillForm register ''A100'' ''Jane Doe'' ''jane@x.edu'' ''pw1'') freshWorld))
   \<and> alerts (submitEffects (offlineCached (Some janeDoc))
        (run (fillForm register ''A100'' ''Jane Doe'' ''jane@x.edu'' ''pw1'') freshWorld))
       = [alertText ConnectivityRequiredError]
   \<and> remote (handleAuth (offlineCached (Some janeDoc))
        (run (fillForm register ''A100'' ''Jane Doe'' ''jane@x.edu'' ''pw1'') freshWorld))
       = remote (run (fillForm register ''A100'' ''Jane Doe'' ''jane@x.edu'' ''pw1'') freshWorld)
   \<and> storage (handleAuth (offlineCached (Some janeDoc))
        (run (fillForm register ''A100'' ''Jane Doe'' ''jane@x.edu'' ''pw1'') freshWorld))
       = storage (run (fillForm register ''A100'' ''Jane Doe'' ''jane@x.edu'' ''pw1'') freshWorld)"
proof -
  let ?w = "run (fillForm register ''A100'' ''Jane Doe'' ''jane@x.edu'' ''pw1'') freshWorld"
  let ?e = "offlineCached (Some janeDoc)"
  have h1: "authMode (loginScreen ?w) = register"
    by code_simp
  have h2: "GetDocFromCache ''a100'' (Resolved (Some janeDoc)) \<in> set (submitEffects ?e ?w)"
    by code_simp
  note r = register_from_cache_rejected[OF h1 h2]
  have a: "alerts (submitEffects ?e ?w) = [alertText ConnectivityRequiredError]"
    by (simp add: submitEffects_def r)
  have b: "remote (handleAuth ?e ?w) = remote ?w" "storage (handleAuth ?e ?w) = storage ?w"
    by (simp_all add: r)
  show ?thesis
    by (intro conjI h1 h2 a b)
qed


subsection \<open>The effects of a submit\<close>

lemma handleAuth_trace_prefix: "\<exists>effs. trace (handleAuth e w) = trace w @ effs"
proof (cases "validateForm (authMode (loginScreen w)) (form (loginScreen w))")
  case (Some msg)
  then show ?thesis by (simp add: handleAuth_def emit_def)
next
  case None
  show ?thesis
  proof (cases "serverOnline e")
    case True
    with None show ?thesis
      by (simp add: handler_defs fetchSnapshot_server Let_def world_defs split: option.splits)
  next
    case False
    with None show ?thesis
      by (cases "cacheResult e")
         (simp_all add: handler_defs fetchSnapshot_none fetchSnapshot_cache Let_def world_defs
            split: option.splits)
  qed
qed

lemma submitEffects_trace: "trace (handleAuth e w) = trace w @ submitEffects e w"
  using handleAuth_trace_prefix[of e w] by (auto simp: submitEffects_def)


text \<open>The two paths that end in the list screen, with the world they leave.\<close>

lemma handleAuth_register_success:
  assumes "authMode (loginScreen w) = register"
      and "validateForm register (form (loginScreen w)) = None"
      and "serverOnline e"
      and "remote w (normalizeNim (form_nim (form (loginScreen w)))) = None"
      and "writeOk e"
  shows "handleAuth e w =
     w\<lparr>storage := (storage w)
          (''user_nim'' \<mapsto> trimValue (form_nim (form (loginScreen w))),
           ''user_nama'' \<mapsto> trimValue (form_nama (form (loginScreen w))),
           ''user_email'' \<mapsto> trimValue (form_email (form (loginScreen w)))),
       remote := (remote w)
          (normalizeNim (form_nim (form (loginScreen w))) \<mapsto>
             payloadDoc (buildUserPayload (form (loginScreen w)))
               (normalizeNim (form_nim (form (loginScreen w))))),
       shown := Mahasiswa,
       loginScreen := (loginScreen w)
          \<lparr>form := initialFormState,
           currentUser := Some (user.truncate (buildUserPayload (form (loginScreen w)))),
           loading := False\<rparr>,
       trace := trace w @
          [GetDocFromServer (normalizeNim (form_nim (form (loginScreen w)))) (Resolved None),
           ConsoleLog ''Auth attempt'',
           SetDoc (normalizeNim (form_nim (form (loginScreen w))))
             (payloadDoc (buildUserPayload (form (loginScreen w)))
               (normalizeNim (form_nim (form (loginScreen w))))) True,
           ConsoleLog ''Register success'',
           StorageSet ''user_nim'' (trimValue (form_nim (form (loginScreen w)))),
           StorageSet ''user_nama'' (trimValue (form_nama (form (loginScreen w)))),
           StorageSet ''user_email'' (trimValue (form_email (form (loginScreen w)))),
           NavigationReplace Mahasiswa]\<rparr>"
  using assms
  by (simp add: handler_defs fetchSnapshot_server Let_def world_defs buildUserPayload_def
        coalesce_def)

lemma handleAuth_login_success:
  assumes "authMode (loginScreen w) = login"
      and "validateForm login (form (loginScreen w)) = None"
      and "resolvedSnapshot e w (normalizeNim (form_nim (form (loginScreen w)))) = Some (Some d)"
      and "data_password d = Some (form_password (form (loginScreen w)))"
  shows "\<exists>reads. list_all isReadOrLog reads \<and> handleAuth e w =
     w\<lparr>storage := (storage w)
          (''user_nim'' \<mapsto> coalesce (data_nim d) (trimValue (form_nim (form (loginScreen w)))),
           ''user_nama'' \<mapsto> coalesce (data_nama d) ''Mahasiswa'',
           ''user_email'' \<mapsto> coalesce (data_email d) []),
       shown := Mahasiswa,
       loginScreen := (loginScreen w)
          \<lparr>form := initialFormState,
           currentUser := Some
             \<lparr>nim = coalesce (data_nim d) (trimValue (form_nim (form (loginScreen w)))),
              nama = coalesce (data_nama d) ''Mahasiswa'',
              email = Some (coalesce (data_email d) [])\<rparr>,
           loading := False\<rparr>,
       trace := trace w @ reads @
          [StorageSet ''user_nim''
             (coalesce (data_nim d) (trimValue (form_nim (form (loginScreen w))))),
           StorageSet ''user_nama'' (coalesce (data_nama d) ''Mahasiswa''),
           StorageSet ''user_email'' (coalesce (data_email d) []),
           NavigationReplace Mahasiswa]\<rparr>"
proof (cases "serverOnline e")
  case True
  with assms show ?thesis
    by (intro exI[of _ "[GetDocFromServer (normalizeNim (form_nim (form (loginScreen w))))
            (Resolved (Some d)), ConsoleLog ''Auth attempt'']"])
       (simp add: resolvedSnapshot_cases handler_defs fetchSnapshot_server Let_def world_defs
          )
next
  case False
  with assms have c: "cacheResult e = Resolved (Some d)"
    by (cases "cacheResult e") (simp_all add: resolvedSnapshot_cases)
  with False assms show ?thesis
    by (intro exI[of _ "[GetDocFromServer (normalizeNim (form_nim (form (loginScreen w)))) Rejected,
            ConsoleWarn ''Server fetch failed, fallback to cache:'',
            GetDocFromCache (normalizeNim (form_nim (form (loginScreen w)))) (Resolved (Some d)),
            ConsoleLog ''Auth attempt'']"])
       (simp add: handler_defs fetchSnapshot_cache Let_def world_defs)
qed

lemma succeeded_cases:
  assumes "succeeded e w"
  shows "validateForm (authMode (loginScreen w)) (form (loginScreen w)) = None \<and>
     ((authMode (loginScreen w) = register \<and> serverOnline e \<and> writeOk e \<and>
       remote w (normalizeNim (form_nim (form (loginScreen w)))) = None)
      \<or> (authMode (loginScreen w) = login \<and>
         (\<exists>d. resolvedSnapshot e w (normalizeNim (form_nim (form (loginScreen w)))) = Some (Some d)
            \<and> data_password d = Some (form_password (form (loginScreen w))))))"
proof (cases "validateForm (authMode (loginScreen w)) (form (loginScreen w))")
  case (Some msg)
  with assms show ?thesis
    by (simp add: succeeded_def submitEffects_def handleAuth_def emit_def)
next
  case None
  show ?thesis
  proof (cases "serverOnline e")
    case True
    with None assms show ?thesis
      by (cases "authMode (loginScreen w)")
         (auto simp: succeeded_def submitEffects_def resolvedSnapshot_cases handler_defs
            fetchSnapshot_server Let_def world_defs split: option.splits if_splits)
  next
    case False
    with None assms show ?thesis
      by (cases "cacheResult e"; cases "authMode (loginScreen w)")
         (auto simp: succeeded_def submitEffects_def resolvedSnapshot_cases handler_defs
            fetchSnapshot_none fetchSnapshot_cache Let_def world_defs
            split: option.splits if_splits)
  qed
qed

subsection \<open>Login with a wrong credential\<close>

lemma handleAuth_login_mismatch:
  assumes "authMode (loginScreen w) = login"
      and "validateForm login (form (loginScreen w)) = None"
      and "resolvedSnapshot e w (normalizeNim (form_nim (form (loginScreen w)))) = Some (Some d)"
      and "data_password d \<noteq> Some (form_password (form (loginScreen w)))"
  shows "submitEffects e w \<noteq> [] \<and> last (submitEffects e w) = Alert ''Password salah.''
       \<and> alerts (submitEffects e w) = [''Password salah.'']
       \<and> storage (handleAuth e w) = storage w
       \<and> currentUser (loginScreen (handleAuth e w)) = currentUser (loginScreen w)
       \<and> remote (handleAuth e w) = remote w
       \<and> shown (handleAuth e w) = shown w"
proof (cases "serverOnline e")
  case True
  with assms show ?thesis
    by (simp add: resolvedSnapshot_cases submitEffects_def
          handler_defs fetchSnapshot_server Let_def world_defs)
next
  case False
  with assms have "cacheResult e = Resolved (Some d)"
    by (cases "cacheResult e") (simp_all add: resolvedSnapshot_cases)
  with False assms show ?thesis
    by (simp add: resolvedSnapshot_cases submitEffects_def
          handler_defs fetchSnapshot_cache Let_def world_defs)
qed




subsection \<open>The order of the side effects\<close>



subsection \<open>Logout and the next mount\<close>

text \<open>
  C6. \<open>handleLogout\<close> leaves the empty string under each of the three keys and
  shows the login screen; the mount effect that follows finds \<open>nim && nama\<close>
  false, so it sets \<open>hydrated\<close>, the form is rendered, the login screen stays
  shown and no navigation is signalled.
\<close>

theorem logout_then_bootstrap_renders_form:
  "storage (handleLogout w) ''user_nim'' = Some []
   \<and> storage (handleLogout w) ''user_nama'' = Some []
   \<and> storage (handleLogout w) ''user_email'' = Some []
   \<and> shown (handleLogout w) = Login
   \<and> renderLogin (loginScreen (mountLogin (handleLogout w))) = FormView
   \<and> shown (mountLogin (handleLogout w)) = Login
   \<and> trace (mountLogin (handleLogout w)) = trace (handleLogout w)"
  by (simp add: handleLogout_def mountLogin_def mountEffect_def STORAGE_KEYS_def
        renderLogin_def truthy_def loginScreenInit_def Let_def world_defs)

subsection \<open>A failed scan\<close>

text \<open>
  C8. When \<open>getDocs\<close> rejects on mount, the error goes to the console and nowhere
  else: \<open>data\<close> is still the empty list, \<open>loading\<close> is off, the screen renders
  the empty list, and no alert is raised.
\<close>

theorem scan_failure_shows_empty_list:
  "mountMahasiswa Rejected w =
     w\<lparr>mahasiswaScreen := \<lparr>rows = [], rows_loading = False\<rparr>,
       trace := trace w @ [GetDocs False, ConsoleError ''Failed to fetch mahasiswa'']\<rparr>
   \<and> renderMahasiswa (mahasiswaScreen (mountMahasiswa Rejected w)) =
       EmptyText ''Belum ada data mahasiswa.''
   \<and> alerts (drop (length (trace w)) (trace (mountMahasiswa Rejected w))) = []"
  by (simp add: mountMahasiswa_def fetchData_def mahasiswaScreenInit_def renderMahasiswa_def
        world_defs)



subsection \<open>What the handlers do to the local store\<close>

lemma handleAuth_failed_frame:
  assumes "\<not> succeeded e w"
  shows "storage (handleAuth e w) = storage w \<and> remote (handleAuth e w) = remote w
       \<and> shown (handleAuth e w) = shown w \<and> storageWrites (submitEffects e w) = []"
proof (cases "validateForm (authMode (loginScreen w)) (form (loginScreen w))")
  case (Some msg)
  then show ?thesis
    by (simp add: submitEffects_def handleAuth_def emit_def)
next
  case None
  show ?thesis
  proof (cases "serverOnline e")
    case True
    with None assms show ?thesis
      by (cases "authMode (loginScreen w)")
         (auto simp: succeeded_def submitEffects_def handler_defs
            fetchSnapshot_server Let_def world_defs split: option.splits if_splits)
  next
    case False
    with None assms show ?thesis
      by (cases "cacheResult e"; cases "authMode (loginScreen w)")
         (auto simp: succeeded_def submitEffects_def handler_defs
            fetchSnapshot_none fetchSnapshot_cache Let_def world_defs
            split: option.splits if_splits)
  qed
qed

lemma handleAuth_storage:
  "storage (handleAuth e w) = storage w \<or>
   (\<exists>a b c. storage (handleAuth e w) =
      (storage w)(''user_nim'' \<mapsto> a, ''user_nama'' \<mapsto> b, ''user_email'' \<mapsto> c))"
proof (cases "succeeded e w")
  case False
  then show ?thesis by (simp add: handleAuth_failed_frame)
next
  case True
  from succeeded_cases[OF True]
  have v: "validateForm (authMode (loginScreen w)) (form (loginScreen w)) = None"
    and c: "(authMode (loginScreen w) = register \<and> serverOnline e \<and> writeOk e \<and>
       remote w (normalizeNim (form_nim (form (loginScreen w)))) = None)
      \<or> (authMode (loginScreen w) = login \<and>
         (\<exists>d. resolvedSnapshot e w (normalizeNim (form_nim (form (loginScreen w)))) = Some (Some d)
            \<and> data_password d = Some (form_password (form (loginScreen w)))))"
    by blast+
  from c show ?thesis
  proof
    assume r: "authMode (loginScreen w) = register \<and> serverOnline e \<and> writeOk e \<and>
       remote w (normalizeNim (form_nim (form (loginScreen w)))) = None"
    with v have "storage (handleAuth e w) = (storage w)
          (''user_nim'' \<mapsto> trimValue (form_nim (form (loginScreen w))),
           ''user_nama'' \<mapsto> trimValue (form_nama (form (loginScreen w))),
           ''user_email'' \<mapsto> trimValue (form_email (form (loginScreen w))))"
      by (simp add: handleAuth_register_success)
    then show ?thesis by blast
  next
    assume l: "authMode (loginScreen w) = login \<and>
         (\<exists>d. resolvedSnapshot e w (normalizeNim (form_nim (form (loginScreen w)))) = Some (Some d)
            \<and> data_password d = Some (form_password (form (loginScreen w))))"
    then obtain d where d: "resolvedSnapshot e w (normalizeNim (form_nim (form (loginScreen w)))) = Some (Some d)"
       "data_password d = Some (form_password (form (loginScreen w)))" by blast
    from l v have v': "validateForm login (form (loginScreen w)) = None" by simp
    from handleAuth_login_success[OF _ v' d] l
    have "storage (handleAuth e w) = (storage w)
          (''user_nim'' \<mapsto> coalesce (data_nim d) (trimValue (form_nim (form (loginScreen w)))),
           ''user_nama'' \<mapsto> coalesce (data_nama d) ''Mahasiswa'',
           ''user_email'' \<mapsto> coalesce (data_email d) [])"
      by force
    then show ?thesis by blast
  qed
qed

lemma handleLogout_storage:
  "storage (handleLogout w) =
     (storage w)(''user_nim'' \<mapsto> [], ''user_nama'' \<mapsto> [], ''user_email'' \<mapsto> [])"
  by (simp add: handleLogout_def STORAGE_KEYS_def world_defs)

lemma handleLocalLogout_storage:
  "storage (handleLocalLogout supported w) =
     (if supported
      then (storage w)(''user_nim'' := None, ''user_nama'' := None, ''user_email'' := None)
      else storage w)"
  by (simp add: handleLocalLogout_def clearPersistedUser_def STORAGE_KEYS_def world_defs)

lemma step_storage:
  "storage (step a w) = storage w
   \<or> (\<exists>x y z. storage (step a w) =
        (storage w)(''user_nim'' \<mapsto> x, ''user_nama'' \<mapsto> y, ''user_email'' \<mapsto> z))
   \<or> storage (step a w) =
        (storage w)(''user_nim'' := None, ''user_nama'' := None, ''user_email'' := None)"
proof (cases a)
  case MountLogin
  then show ?thesis
    by (simp add: mountLogin_def mountEffect_def Let_def world_defs)
next
  case (UpdateField fld v)
  then show ?thesis by (simp add: updateField_def)
next
  case (SwitchMode m)
  then show ?thesis by (simp add: switchMode_def world_defs)
next
  case (Submit e)
  then show ?thesis using handleAuth_storage[of e w] by auto
next
  case (LocalLogout supported)
  then show ?thesis by (simp add: handleLocalLogout_storage)
next
  case (MountMahasiswa scan)
  then show ?thesis
    by (cases scan) (simp_all add: mountMahasiswa_def fetchData_def world_defs)
next
  case Logout
  then show ?thesis using handleLogout_storage[of w] by auto
qed

lemma step_other_keys:
  "k \<notin> set STORAGE_KEYS \<Longrightarrow> storage (step a w) k = storage w k"
  using step_storage[of a w] by (auto simp: STORAGE_KEYS_def)

lemma run_other_keys:
  "k \<notin> set STORAGE_KEYS \<Longrightarrow> storage (run acts w) k = storage w k"
  unfolding run_def
  by (induction acts arbitrary: w) (simp_all add: step_other_keys)

subsection \<open>The session record is whole\<close>

lemma step_session:
  assumes "sessionAllOrNothing (storage w)"
  shows "sessionAllOrNothing (storage (step a w))"
  using step_storage[of a w] assms
  by (auto simp: sessionAllOrNothing_def holdsValue_def STORAGE_KEYS_def)

lemma run_session:
  assumes "sessionAllOrNothing (storage w)"
  shows "sessionAllOrNothing (storage (run acts w))"
  using assms unfolding run_def
  by (induction acts arbitrary: w) (simp_all add: step_session)

lemma handleAuth_whole:
  assumes "sessionWhole (storage w)" and "recordsWellFormed w" and "wellFormedAction (Submit e)"
  shows "sessionWhole (storage (handleAuth e w)) \<and> recordsWellFormed (handleAuth e w)"
proof (cases "succeeded e w")
  case False
  with assms show ?thesis
    by (simp add: handleAuth_failed_frame recordsWellFormed_def)
next
  case True
  from succeeded_cases[OF True]
  have v: "validateForm (authMode (loginScreen w)) (form (loginScreen w)) = None"
    and c: "(authMode (loginScreen w) = register \<and> serverOnline e \<and> writeOk e \<and>
       remote w (normalizeNim (form_nim (form (loginScreen w)))) = None)
      \<or> (authMode (loginScreen w) = login \<and>
         (\<exists>d. resolvedSnapshot e w (normalizeNim (form_nim (form (loginScreen w)))) = Some (Some d)
            \<and> data_password d = Some (form_password (form (loginScreen w)))))"
    by blast+
  from c show ?thesis
  proof
    assume r: "authMode (loginScreen w) = register \<and> serverOnline e \<and> writeOk e \<and>
       remote w (normalizeNim (form_nim (form (loginScreen w)))) = None"
    with v have v': "validateForm register (form (loginScreen w)) = None" by simp
    from r have m: "authMode (loginScreen w) = register" and o: "serverOnline e"
      and wo: "writeOk e" and n: "remote w (normalizeNim (form_nim (form (loginScreen w)))) = None"
      by simp_all
    note s = handleAuth_register_success[OF m v' o n wo]
    from validateForm_register_fields[OF v'] assms(2) show ?thesis
      by (simp add: s sessionWhole_def recordsWellFormed_def STORAGE_KEYS_def truthy_def
            wellFormedDoc_def payloadDoc_def buildUserPayload_def)
  next
    assume l: "authMode (loginScreen w) = login \<and>
         (\<exists>d. resolvedSnapshot e w (normalizeNim (form_nim (form (loginScreen w)))) = Some (Some d)
            \<and> data_password d = Some (form_password (form (loginScreen w))))"
    then obtain d where d: "resolvedSnapshot e w (normalizeNim (form_nim (form (loginScreen w)))) = Some (Some d)"
       "data_password d = Some (form_password (form (loginScreen w)))" by blast
    from l v have v': "validateForm login (form (loginScreen w)) = None" by simp
    have wf: "wellFormedDoc d"
      using d(1) assms(2,3)
      by (auto simp: resolvedSnapshot_cases recordsWellFormed_def split: if_splits fetch.splits)
    from v' have ne: "trimValue (form_nim (form (loginScreen w))) \<noteq> []"
      by (simp add: validateForm_login)
    from handleAuth_login_success[OF _ v' d] l
    have st: "storage (handleAuth e w) = (storage w)
          (''user_nim'' \<mapsto> coalesce (data_nim d) (trimValue (form_nim (form (loginScreen w)))),
           ''user_nama'' \<mapsto> coalesce (data_nama d) ''Mahasiswa'',
           ''user_email'' \<mapsto> coalesce (data_email d) [])"
      and rm: "remote (handleAuth e w) = remote w"
      by force+
    have "coalesce (data_nim d) (trimValue (form_nim (form (loginScreen w)))) \<noteq> []"
      "coalesce (data_nama d) ''Mahasiswa'' \<noteq> []" "coalesce (data_email d) [] \<noteq> []"
      using wf ne by (auto simp: wellFormedDoc_def coalesce_def truthy_def split: option.splits)
    with st rm assms(2) show ?thesis
      by (simp add: sessionWhole_def recordsWellFormed_def STORAGE_KEYS_def truthy_def)
  qed
qed

lemma step_whole:
  assumes "sessionWhole (storage w)" and "recordsWellFormed w" and "wellFormedAction a"
  shows "sessionWhole (storage (step a w)) \<and> recordsWellFormed (step a w)"
proof (cases a)
  case MountLogin
  with assms show ?thesis
    by (simp add: mountLogin_def mountEffect_def Let_def world_defs recordsWellFormed_def)
next
  case (UpdateField fld v)
  with assms show ?thesis by (simp add: updateField_def recordsWellFormed_def)
next
  case (SwitchMode m)
  with assms show ?thesis by (simp add: switchMode_def world_defs recordsWellFormed_def)
next
  case (Submit e)
  with assms show ?thesis using handleAuth_whole[of w e] by simp
next
  case (LocalLogout supported)
  with assms show ?thesis
    by (simp add: handleLocalLogout_def clearPersistedUser_def STORAGE_KEYS_def world_defs
          recordsWellFormed_def sessionWhole_def truthy_def)
next
  case (MountMahasiswa scan)
  with assms show ?thesis
    by (cases scan) (simp_all add: mountMahasiswa_def fetchData_def world_defs recordsWellFormed_def)
next
  case Logout
  with assms show ?thesis
    by (simp add: handleLogout_def STORAGE_KEYS_def world_defs recordsWellFormed_def
          sessionWhole_def truthy_def)
qed

lemma run_whole:
  assumes "sessionWhole (storage w)" and "recordsWellFormed w"
      and "list_all wellFormedAction acts"
  shows "sessionWhole (storage (run acts w))"
proof -
  have "sessionWhole (storage (fold step acts w)) \<and> recordsWellFormed (fold step acts w)"
    using assms
  proof (induction acts arbitrary: w)
    case Nil
    then show ?case by simp
  next
    case (Cons a acts)
    from Cons.prems have "sessionWhole (storage (step a w)) \<and> recordsWellFormed (step a w)"
      by (intro step_whole) simp_all
    with Cons.IH[of "step a w"] Cons.prems(3) show ?case by simp
  qed
  then show ?thesis by (simp add: run_def)
qed

text \<open>
  C1. From a local store in which the three keys \<open>user_nim\<close>, \<open>user_nama\<close>,
  \<open>user_email\<close> hold no value, or hold one each, every sequence of actions (mounts
  of either screen, edits of the form, submits with any answer of the database,
  both logouts) leads to a store of which the same is true: \<open>persistUser\<close> and
  \<open>handleLogout\<close> write all three keys, \<open>clearPersistedUser\<close> deletes all three
  or none, and nothing else writes. The same holds when a key counts as present
  only if a non-empty string is stored under it, provided the records read are as
  the data model has them (a record without \<open>email\<close> logs in with the empty
  string for it).
\<close>

theorem session_all_or_nothing:
  "(sessionAllOrNothing (storage w) \<longrightarrow> sessionAllOrNothing (storage (run acts w)))
   \<and> (sessionWhole (storage w) \<and> recordsWellFormed w \<and> list_all wellFormedAction acts
        \<longrightarrow> sessionWhole (storage (run acts w)))"
  using run_session[of w acts] run_whole[of w acts] by blast

text \<open>The fresh installation, through a registration, the list and a logout.\<close>

theorem session_all_or_nothing_witness:
  "sessionAllOrNothing (storage freshWorld)
   \<and> sessionWhole (storage freshWorld) \<and> recordsWellFormed freshWorld
   \<and> list_all wellFormedAction
         (MountLogin # fillForm register ''A100'' ''Jane Doe'' ''jane@x.edu'' ''pw1''
          @ [Submit online, MountMahasiswa (Resolved [(''a100'', janeDoc)]), Logout, MountLogin])
   \<and> sessionAllOrNothing (storage
        (run (MountLogin # fillForm register ''A100'' ''Jane Doe'' ''jane@x.edu'' ''pw1''
              @ [Submit online, MountMahasiswa (Resolved [(''a100'', janeDoc)]), Logout,
                 MountLogin])
           freshWorld))
   \<and> sessionWhole (storage
        (run (MountLogin # fillForm register ''A100'' ''Jane Doe'' ''jane@x.edu'' ''pw1''
              @ [Submit online, MountMahasiswa (Resolved [(''a100'', janeDoc)]), Logout,
                 MountLogin])
           freshWorld))"
proof -
  let ?acts = "MountLogin # fillForm register ''A100'' ''Jane Doe'' ''jane@x.edu'' ''pw1''
          @ [Submit online, MountMahasiswa (Resolved [(''a100'', janeDoc)]), Logout, MountLogin]"
  have h1: "sessionAllOrNothing (storage freshWorld)"
    by (simp add: sessionAllOrNothing_def holdsValue_def freshWorld_def STORAGE_KEYS_def)
  have h2: "sessionWhole (storage freshWorld)"
    by (simp add: sessionWhole_def truthy_def freshWorld_def STORAGE_KEYS_def)
  have h3: "recordsWellFormed freshWorld"
    by (simp add: recordsWellFormed_def freshWorld_def)
  have h4: "list_all wellFormedAction ?acts"
    by (simp add: fillForm_def online_def)
  from session_all_or_nothing[of freshWorld ?acts] h1 h2 h3 h4
  have r: "sessionAllOrNothing (storage (run ?acts freshWorld))"
    "sessionWhole (storage (run ?acts freshWorld))"
    by blast+
  show ?thesis
    by (intro conjI h1 h2 h3 h4 r)
qed

subsection \<open>The credential stays out of the local store\<close>

lemma persistUser_storage:
  "storage (persistUser u w) =
     (storage w)(''user_nim'' \<mapsto> nim u, ''user_nama'' \<mapsto> nama u,
        ''user_email'' \<mapsto> coalesce (email u) [])"
  by (simp add: persistUser_def world_defs)

lemma storageWrites_after_reads:
  "list_all isReadOrLog xs \<Longrightarrow> storageWrites (xs @ ys) = storageWrites ys"
  by (induction xs rule: storageWrites.induct) simp_all

lemma submit_storageWrites:
  "storageWrites (submitEffects e w) =
     (if succeeded e w
      then (if authMode (loginScreen w) = register
            then [(''user_nim'', trimValue (form_nim (form (loginScreen w)))),
                  (''user_nama'', trimValue (form_nama (form (loginScreen w)))),
                  (''user_email'', trimValue (form_email (form (loginScreen w))))]
            else (case resolvedSnapshot e w (normalizeNim (form_nim (form (loginScreen w)))) of
                    Some (Some d) \<Rightarrow>
                      [(''user_nim'',
                          coalesce (data_nim d) (trimValue (form_nim (form (loginScreen w))))),
                       (''user_nama'', coalesce (data_nama d) ''Mahasiswa''),
                       (''user_email'', coalesce (data_email d) [])]
                  | _ \<Rightarrow> []))
      else [])"
proof (cases "succeeded e w")
  case False
  then show ?thesis by (simp add: handleAuth_failed_frame)
next
  case True
  from succeeded_cases[OF True]
  have v: "validateForm (authMode (loginScreen w)) (form (loginScreen w)) = None"
    and c: "(authMode (loginScreen w) = register \<and> serverOnline e \<and> writeOk e \<and>
       remote w (normalizeNim (form_nim (form (loginScreen w)))) = None)
      \<or> (authMode (loginScreen w) = login \<and>
         (\<exists>d. resolvedSnapshot e w (normalizeNim (form_nim (form (loginScreen w)))) = Some (Some d)
            \<and> data_password d = Some (form_password (form (loginScreen w)))))"
    by blast+
  from c show ?thesis
  proof
    assume r: "authMode (loginScreen w) = register \<and> serverOnline e \<and> writeOk e \<and>
       remote w (normalizeNim (form_nim (form (loginScreen w)))) = None"
    with v have "trace (handleAuth e w) = trace w @
          [GetDocFromServer (normalizeNim (form_nim (form (loginScreen w)))) (Resolved None),
           ConsoleLog ''Auth attempt'',
           SetDoc (normalizeNim (form_nim (form (loginScreen w))))
             (payloadDoc (buildUserPayload (form (loginScreen w)))
               (normalizeNim (form_nim (form (loginScreen w))))) True,
           ConsoleLog ''Register success'',
           StorageSet ''user_nim'' (trimValue (form_nim (form (loginScreen w)))),
           StorageSet ''user_nama'' (trimValue (form_nama (form (loginScreen w)))),
           StorageSet ''user_email'' (trimValue (form_email (form (loginScreen w)))),
           NavigationReplace Mahasiswa]"
      by (simp add: handleAuth_register_success)
    with r True show ?thesis by (simp add: submitEffects_def)
  next
    assume l: "authMode (loginScreen w) = login \<and>
         (\<exists>d. resolvedSnapshot e w (normalizeNim (form_nim (form (loginScreen w)))) = Some (Some d)
            \<and> data_password d = Some (form_password (form (loginScreen w))))"
    then obtain d where d: "resolvedSnapshot e w (normalizeNim (form_nim (form (loginScreen w)))) = Some (Some d)"
       "data_password d = Some (form_password (form (loginScreen w)))" by blast
    from l v have v': "validateForm login (form (loginScreen w)) = None" by simp
    from handleAuth_login_success[OF _ v' d] l
    obtain reads where rd: "list_all isReadOrLog reads" and
      "trace (handleAuth e w) = trace w @ reads @
          [StorageSet ''user_nim''
             (coalesce (data_nim d) (trimValue (form_nim (form (loginScreen w))))),
           StorageSet ''user_nama'' (coalesce (data_nama d) ''Mahasiswa''),
           StorageSet ''user_email'' (coalesce (data_email d) []),
           NavigationReplace Mahasiswa]"
      by force
    then have se: "submitEffects e w = reads @
          [StorageSet ''user_nim''
             (coalesce (data_nim d) (trimValue (form_nim (form (loginScreen w))))),
           StorageSet ''user_nama'' (coalesce (data_nama d) ''Mahasiswa''),
           StorageSet ''user_email'' (coalesce (data_email d) []),
           NavigationReplace Mahasiswa]"
      by (simp add: submitEffects_def)
    from se storageWrites_after_reads[OF rd] l d True show ?thesis by simp
  qed
qed

text \<open>
  C10. \<open>persistUser\<close> writes \<open>nim\<close>, \<open>nama\<close> and \<open>email\<close> (or the empty
  string) under the three keys, and gives the same result whatever the \<open>password\<close>
  field of the payload it is handed. The writes of a submit to the local store are
  none when it fails; when it succeeds they are the three trimmed form fields
  (register), or the three fields of the record found, with their defaults (login).
  \<open>handleLogout\<close> writes the empty string. No sequence of actions changes the
  store at any other key. So \<open>form.password\<close> and \<open>data.password\<close> are never
  what is written.
\<close>

theorem credential_not_persisted:
  "persistUser ((p::payload)\<lparr>password := q\<rparr>) w = persistUser p w
   \<and> storage (persistUser p w) =
       (storage w)(''user_nim'' \<mapsto> nim p, ''user_nama'' \<mapsto> nama p,
          ''user_email'' \<mapsto> coalesce (email p) [])
   \<and> storageWrites (submitEffects e w) =
       (if succeeded e w
        then (if authMode (loginScreen w) = register
              then [(''user_nim'', trimValue (form_nim (form (loginScreen w)))),
                    (''user_nama'', trimValue (form_nama (form (loginScreen w)))),
                    (''user_email'', trimValue (form_email (form (loginScreen w))))]
              else (case resolvedSnapshot e w (normalizeNim (form_nim (form (loginScreen w)))) of
                      Some (Some d) \<Rightarrow>
                        [(''user_nim'',
                            coalesce (data_nim d) (trimValue (form_nim (form (loginScreen w))))),
                         (''user_nama'', coalesce (data_nama d) ''Mahasiswa''),
                         (''user_email'', coalesce (data_email d) [])]
                    | _ \<Rightarrow> []))
        else [])
   \<and> storage (handleLogout w) =
       (storage w)(''user_nim'' \<mapsto> [], ''user_nama'' \<mapsto> [], ''user_email'' \<mapsto> [])
   \<and> (\<forall>k. k \<notin> set STORAGE_KEYS \<longrightarrow> storage (run acts w) k = storage w k)"
  by (simp add: submit_storageWrites persistUser_storage handleLogout_storage run_other_keys)
     (simp add: persistUser_def)

text \<open>
  The registration of the specification's scenario: three writes, none of \<open>pw1\<close>;
  and a key outside the three stays empty through the whole run.
\<close>

theorem credential_not_persisted_witness:
  "succeeded online
      (run (MountLogin # fillForm register ''A100'' ''Jane Doe'' ''jane@x.edu'' ''pw1'') freshWorld)
   \<and> storageWrites (submitEffects online
        (run (MountLogin # fillForm register ''A100'' ''Jane Doe'' ''jane@x.edu'' ''pw1'')
           freshWorld))
       = [(''user_nim'', ''A100''), (''user_nama'', ''Jane Doe''), (''user_email'', ''jane@x.edu'')]
   \<and> ''user_password'' \<notin> set STORAGE_KEYS
   \<and> storage
        (run [Submit online, MountMahasiswa Rejected, Logout]
           (run (MountLogin # fillForm register ''A100'' ''Jane Doe'' ''jane@x.edu'' ''pw1'')
              freshWorld)) ''user_password'' = None"
proof -
  let ?w = "run (MountLogin # fillForm register ''A100'' ''Jane Doe'' ''jane@x.edu'' ''pw1'') freshWorld"
  let ?acts = "[Submit online, MountMahasiswa Rejected, Logout]"
  have h1: "succeeded online ?w"
    by code_simp
  have h2: "authMode (loginScreen ?w) = register"
    by code_simp
  have h3: "trimValue (form_nim (form (loginScreen ?w))) = ''A100''"
           "trimValue (form_nama (form (loginScreen ?w))) = ''Jane Doe''"
           "trimValue (form_email (form (loginScreen ?w))) = ''jane@x.edu''"
    by code_simp+
  have h4: "''user_password'' \<notin> set STORAGE_KEYS"
    by (simp add: STORAGE_KEYS_def)
  have h5: "storage ?w ''user_password'' = None"
    by code_simp
  from credential_not_persisted[where w = ?w and e = online and acts = ?acts] h1 h2 h3 h4 h5
  show ?thesis by simp
qed

subsection \<open>Records are never overwritten\<close>

lemma handleAuth_remote:
  "remote (handleAuth e w) = remote w \<or>
   (remote w (normalizeNim (form_nim (form (loginScreen w)))) = None \<and>
    (\<exists>d. remote (handleAuth e w) =
       (remote w)(normalizeNim (form_nim (form (loginScreen w))) \<mapsto> d)))"
proof (cases "succeeded e w")
  case False
  then show ?thesis by (simp add: handleAuth_failed_frame)
next
  case True
  from succeeded_cases[OF True]
  have v: "validateForm (authMode (loginScreen w)) (form (loginScreen w)) = None"
    and c: "(authMode (loginScreen w) = register \<and> serverOnline e \<and> writeOk e \<and>
       remote w (normalizeNim (form_nim (form (loginScreen w)))) = None)
      \<or> (authMode (loginScreen w) = login \<and>
         (\<exists>d. resolvedSnapshot e w (normalizeNim (form_nim (form (loginScreen w)))) = Some (Some d)
            \<and> data_password d = Some (form_password (form (loginScreen w)))))"
    by blast+
  from c show ?thesis
  proof
    assume r: "authMode (loginScreen w) = register \<and> serverOnline e \<and> writeOk e \<and>
       remote w (normalizeNim (form_nim (form (loginScreen w)))) = None"
    with v have "remote (handleAuth e w) = (remote w)
          (normalizeNim (form_nim (form (loginScreen w))) \<mapsto>
             payloadDoc (buildUserPayload (form (loginScreen w)))
               (normalizeNim (form_nim (form (loginScreen w)))))"
      by (simp add: handleAuth_register_success)
    with r show ?thesis by blast
  next
    assume l: "authMode (loginScreen w) = login \<and>
         (\<exists>d. resolvedSnapshot e w (normalizeNim (form_nim (form (loginScreen w)))) = Some (Some d)
            \<and> data_password d = Some (form_password (form (loginScreen w))))"
    then obtain d where d: "resolvedSnapshot e w (normalizeNim (form_nim (form (loginScreen w)))) = Some (Some d)"
       "data_password d = Some (form_password (form (loginScreen w)))" by blast
    from l v have v': "validateForm login (form (loginScreen w)) = None" by simp
    from handleAuth_login_success[OF _ v' d] l
    have "remote (handleAuth e w) = remote w"
      by force
    then show ?thesis by blast
  qed
qed

lemma step_remote_kept:
  assumes "remote w k = Some d"
  shows "remote (step a w) k = Some d"
proof (cases a)
  case MountLogin
  with assms show ?thesis
    by (simp add: mountLogin_def mountEffect_def Let_def world_defs)
next
  case (UpdateField fld v)
  with assms show ?thesis by (simp add: updateField_def)
next
  case (SwitchMode m)
  with assms show ?thesis by (simp add: switchMode_def world_defs)
next
  case (Submit e)
  with assms show ?thesis using handleAuth_remote[of e w] by auto
next
  case (LocalLogout supported)
  with assms show ?thesis
    by (simp add: handleLocalLogout_def clearPersistedUser_def STORAGE_KEYS_def world_defs)
next
  case (MountMahasiswa scan)
  with assms show ?thesis
    by (cases scan) (simp_all add: mountMahasiswa_def fetchData_def world_defs)
next
  case Logout
  with assms show ?thesis
    by (simp add: handleLogout_def STORAGE_KEYS_def world_defs)
qed

lemma run_remote_kept:
  "remote w k = Some d \<Longrightarrow> remote (run acts w) k = Some d"
  unfolding run_def
  by (induction acts arbitrary: w) (simp_all add: step_remote_kept)

lemma registered_record:
  assumes "authMode (loginScreen w) = register" and "succeeded e w"
  shows "validateForm register (form (loginScreen w)) = None \<and>
         remote (handleAuth e w) (normalizeNim (form_nim (form (loginScreen w)))) =
           Some (payloadDoc (buildUserPayload (form (loginScreen w)))
                   (normalizeNim (form_nim (form (loginScreen w)))))"
proof -
  from succeeded_cases[OF assms(2)] assms(1)
  have v: "validateForm register (form (loginScreen w)) = None"
    and c: "serverOnline e" "writeOk e"
       "remote w (normalizeNim (form_nim (form (loginScreen w)))) = None"
    by auto
  from handleAuth_register_success[OF assms(1) v c(1) c(3) c(2)]
  have "remote (handleAuth e w) = (remote w)
          (normalizeNim (form_nim (form (loginScreen w))) \<mapsto>
             payloadDoc (buildUserPayload (form (loginScreen w)))
               (normalizeNim (form_nim (form (loginScreen w)))))"
    by simp
  with v show ?thesis by simp
qed

lemma handleAuth_register_duplicate:
  assumes "authMode (loginScreen w) = register"
      and "validateForm register (form (loginScreen w)) = None"
      and "serverOnline e"
      and "remote w (normalizeNim (form_nim (form (loginScreen w)))) = Some d"
  shows "handleAuth e w =
     w\<lparr>loginScreen := (loginScreen w)\<lparr>loading := False\<rparr>,
       trace := trace w @
         [GetDocFromServer (normalizeNim (form_nim (form (loginScreen w)))) (Resolved (Some d)),
          ConsoleLog ''Auth attempt'',
          Alert ''NIM sudah terdaftar.'']\<rparr>"
  using assms
  by (simp add: handler_defs fetchSnapshot_server Let_def world_defs)

subsection \<open>A second registration under the same key\<close>

lemma register_existing_rejection:
  assumes "authMode (loginScreen w) = register"
      and "remote w (normalizeNim (form_nim (form (loginScreen w)))) = Some d"
  shows "rejectedWith e w
           (case validateForm register (form (loginScreen w)) of
              Some m \<Rightarrow> ValidationError m
            | None \<Rightarrow>
                if serverOnline e then DuplicateIdentifierError
                else (case cacheResult e of
                        Resolved snap \<Rightarrow> ConnectivityRequiredError
                      | Rejected \<Rightarrow> ConnectivityError))"
proof (cases "validateForm register (form (loginScreen w))")
  case (Some m)
  with assms(1) have "handleAuth e w = emit (Alert m) w"
    by (simp add: handleAuth_invalid)
  with Some show ?thesis
    by (simp add: rejectedWith_def submitEffects_def emit_def)
next
  case None
  show ?thesis
  proof (cases "serverOnline e")
    case True
    from handleAuth_register_duplicate[OF assms(1) None True assms(2)] None True
    show ?thesis by (simp add: rejectedWith_def submitEffects_def)
  next
    case False
    with None assms(1) show ?thesis
      by (cases "cacheResult e")
         (simp_all add: rejectedWith_def submitEffects_def handler_defs fetchSnapshot_none
            fetchSnapshot_cache Let_def world_defs)
  qed
qed

lemma register_existing_fails:
  assumes "authMode (loginScreen w) = register"
      and "remote w (normalizeNim (form_nim (form (loginScreen w)))) = Some d"
  shows "\<not> succeeded e w"
  using succeeded_cases[of e w] assms by auto

text \<open>
  C3, as amended. Let two identifiers differ only in surrounding white space and in
  letter case: \<open>a = ws1 @ c1 @ ws2\<close> and \<open>b = ws3 @ c2 @ ws4\<close> with white space
  \<open>ws\<close> and \<open>c1\<close>, \<open>c2\<close> equal in lower case. Then they have the same key. If
  a registration under \<open>a\<close> succeeded, then after any further actions a
  registration under \<open>b\<close> does not succeed and changes neither the collection
  nor the local store, and the one alert it raises is: the validation message when
  the form fails \<open>validateForm\<close>; else that of \<open>DuplicateIdentifierError\<close> when
  the server answers the read; else that of \<open>ConnectivityRequiredError\<close> when the
  cache answers; else that of \<open>ConnectivityError\<close>.
\<close>

theorem duplicate_registration_rejected:
  assumes "a = ws1 @ c1 @ ws2" and "b = ws3 @ c2 @ ws4"
      and "list_all isWhiteSpace (ws1 @ ws2 @ ws3 @ ws4)"
      and "toLowerCase c1 = toLowerCase c2"
      and "authMode (loginScreen w0) = register"
      and "form_nim (form (loginScreen w0)) = a"
      and "succeeded e1 w0"
      and "w2 = run acts (handleAuth e1 w0)"
      and "authMode (loginScreen w2) = register"
      and "form_nim (form (loginScreen w2)) = b"
  shows "normalizeNim a = normalizeNim b
       \<and> \<not> succeeded e2 w2
       \<and> remote (handleAuth e2 w2) = remote w2
       \<and> storage (handleAuth e2 w2) = storage w2
       \<and> rejectedWith e2 w2
           (case validateForm register (form (loginScreen w2)) of
              Some m \<Rightarrow> ValidationError m
            | None \<Rightarrow>
                if serverOnline e2 then DuplicateIdentifierError
                else (case cacheResult e2 of
                        Resolved snap \<Rightarrow> ConnectivityRequiredError
                      | Rejected \<Rightarrow> ConnectivityError))"
proof -
  have k: "normalizeNim a = normalizeNim b"
    using assms(1-4) by (rule normalizeNim_same_key)
  from registered_record[OF assms(5,7)] assms(6)
  obtain d where "remote (handleAuth e1 w0) (normalizeNim a) = Some d" by auto
  then have "remote w2 (normalizeNim a) = Some d"
    unfolding assms(8) by (rule run_remote_kept)
  with k assms(10) have r: "remote w2 (normalizeNim (form_nim (form (loginScreen w2)))) = Some d"
    by simp
  have f: "\<not> succeeded e2 w2"
    using assms(9) r by (rule register_existing_fails)
  from k f handleAuth_failed_frame[OF f] register_existing_rejection[OF assms(9) r]
  show ?thesis by simp
qed

text \<open>
  The example of the specification, \<open>" A100 "\<close> and then \<open>"a100"\<close>, the second
  form valid and the server answering: \<open>DuplicateIdentifierError\<close>.
\<close>

theorem duplicate_registration_rejected_witness:
  "'' A100 '' = '' '' @ ''A100'' @ '' '' \<and> ''a100'' = [] @ ''a100'' @ []
   \<and> list_all isWhiteSpace ('' '' @ '' '' @ [] @ [])
   \<and> toLowerCase ''A100'' = toLowerCase ''a100''
   \<and> authMode (loginScreen firstAttempt) = register
   \<and> form_nim (form (loginScreen firstAttempt)) = '' A100 ''
   \<and> succeeded online firstAttempt
   \<and> authMode (loginScreen
         (run (untilSecondAttempt ''pw2'') (handleAuth online firstAttempt))) = register
   \<and> form_nim (form (loginScreen
         (run (untilSecondAttempt ''pw2'') (handleAuth online firstAttempt)))) = ''a100''
   \<and> normalizeNim '' A100 '' = normalizeNim ''a100''
   \<and> rejectedWith online (run (untilSecondAttempt ''pw2'') (handleAuth online firstAttempt))
         DuplicateIdentifierError
   \<and> remote (handleAuth online
         (run (untilSecondAttempt ''pw2'') (handleAuth online firstAttempt)))
       = remote (run (untilSecondAttempt ''pw2'') (handleAuth online firstAttempt))"
proof -
  let ?w2 = "run (untilSecondAttempt ''pw2'') (handleAuth online firstAttempt)"
  have h1: "'' A100 '' = '' '' @ ''A100'' @ '' ''" and h2: "''a100'' = [] @ ''a100'' @ []"
    by simp_all
  have h3: "list_all isWhiteSpace ('' '' @ '' '' @ [] @ [])"
    by code_simp
  have h4: "toLowerCase ''A100'' = toLowerCase ''a100''"
    by code_simp
  have h5: "authMode (loginScreen firstAttempt) = register"
    by code_simp
  have h6: "form_nim (form (loginScreen firstAttempt)) = '' A100 ''"
    by code_simp
  have h7: "succeeded online firstAttempt"
    by code_simp
  have h9: "authMode (loginScreen ?w2) = register"
    by code_simp
  have h10: "form_nim (form (loginScreen ?w2)) = ''a100''"
    by code_simp
  have v: "validateForm register (form (loginScreen ?w2)) = None"
    by code_simp
  have o: "serverOnline online"
    by (simp add: online_def)
  from duplicate_registration_rejected[OF h1 h2 h3 h4 h5 h6 h7 refl h9 h10, of online] v o
  have r: "normalizeNim '' A100 '' = normalizeNim ''a100''"
    "rejectedWith online ?w2 DuplicateIdentifierError"
    "remote (handleAuth online ?w2) = remote ?w2"
    by simp_all
  show ?thesis
    by (intro conjI h1 h2 h3 h4 h5 h6 h7 h9 h10 r)
qed

text \<open>
  The claim without the amendment fails twice on that example. With the server
  unreachable and the cache answering, the second registration raises the alert of
  \<open>ConnectivityRequiredError\<close>; with a credential of two spaces it raises
  \<open>Password wajib diisi.\<close>; in neither case that of \<open>DuplicateIdentifierError\<close>.
\<close>

theorem duplicate_registration_rejected_counterexample:
  "succeeded online firstAttempt
   \<and> form_nim (form (loginScreen firstAttempt)) = '' A100 ''
   \<and> authMode (loginScreen
         (run (untilSecondAttempt ''pw2'') (handleAuth online firstAttempt))) = register
   \<and> form_nim (form (loginScreen
         (run (untilSecondAttempt ''pw2'') (handleAuth online firstAttempt)))) = ''a100''
   \<and> \<not> rejectedWith (offlineCached (Some janeDoc))
         (run (untilSecondAttempt ''pw2'') (handleAuth online firstAttempt))
         DuplicateIdentifierError
   \<and> rejectedWith (offlineCached (Some janeDoc))
         (run (untilSecondAttempt ''pw2'') (handleAuth online firstAttempt))
         ConnectivityRequiredError
   \<and> form_nim (form (loginScreen
         (run (untilSecondAttempt ''  '') (handleAuth online firstAttempt)))) = ''a100''
   \<and> \<not> rejectedWith online
         (run (untilSecondAttempt ''  '') (handleAuth online firstAttempt))
         DuplicateIdentifierError
   \<and> rejectedWith online
         (run (untilSecondAttempt ''  '') (handleAuth online firstAttempt))
         (ValidationError ''Password wajib diisi.'')"
  by code_simp

subsection \<open>White space around the credential\<close>

text \<open>
  C9. \<open>validateForm\<close> answers \<open>Password wajib diisi.\<close> exactly when the
  identifier is not blank and the credential, trimmed, is empty; a submit with such
  a credential ends in a validation alert. A successful registration stores the
  credential \<open>p\<close> as typed. If trimming changes \<open>p\<close> (it starts or ends in white
  space, see \<open>trim_changes\<close>), then a later login under the same key with the
  trimmed credential, whose lookup returns the stored record, passes validation
  and is rejected with the alert of \<open>InvalidCredentialError\<close>, the local store
  unchanged.
\<close>

theorem credential_whitespace_asymmetry:
  assumes "authMode (loginScreen w0) = register"
      and "form_password (form (loginScreen w0)) = p"
      and "succeeded e1 w0"
      and "w2 = run acts (handleAuth e1 w0)"
      and "authMode (loginScreen w2) = login"
      and "normalizeNim (form_nim (form (loginScreen w2))) =
           normalizeNim (form_nim (form (loginScreen w0)))"
      and "form_password (form (loginScreen w2)) = trim p"
      and "trim p \<noteq> p"
      and "resolvedSnapshot e2 w2 (normalizeNim (form_nim (form (loginScreen w2)))) =
           Some (remote w2 (normalizeNim (form_nim (form (loginScreen w2)))))"
  shows "(\<exists>d. remote w2 (normalizeNim (form_nim (form (loginScreen w0)))) = Some d
            \<and> data_password d = Some p)
       \<and> validateForm login (form (loginScreen w2)) = None
       \<and> rejectedWith e2 w2 InvalidCredentialError
       \<and> \<not> succeeded e2 w2
       \<and> storage (handleAuth e2 w2) = storage w2
       \<and> (\<forall>m f. (validateForm m f = Some ''Password wajib diisi.'') =
                 (trim (form_nim f) \<noteq> [] \<and> trim (form_password f) = []))
       \<and> (\<forall>e (w::world). trim (form_password (form (loginScreen w))) = [] \<longrightarrow>
              (\<exists>msg \<in> set validationMessages. handleAuth e w = emit (Alert msg) w))"
proof -
  let ?k = "normalizeNim (form_nim (form (loginScreen w0)))"
  let ?d = "payloadDoc (buildUserPayload (form (loginScreen w0))) ?k"
  from registered_record[OF assms(1,3)]
  have v1: "validateForm register (form (loginScreen w0)) = None"
    and r1: "remote (handleAuth e1 w0) ?k = Some ?d" by auto
  have r2: "remote w2 ?k = Some ?d"
    unfolding assms(4) using r1 by (rule run_remote_kept)
  have pw: "data_password ?d = Some p"
    using assms(2) by (simp add: payloadDoc_def buildUserPayload_def)
  from validateForm_register_fields[OF v1] assms(2)
  have ne: "trimValue (form_nim (form (loginScreen w0))) \<noteq> []" "trim p \<noteq> []"
    by (auto simp: trimValue_def)
  have "normalizeNim (form_nim (form (loginScreen w2))) \<noteq> []"
    using ne(1) assms(6) by (simp add: normalizeNim_Nil)
  then have v2: "validateForm login (form (loginScreen w2)) = None"
    using ne(2) assms(7) by (simp add: validateForm_login normalizeNim_Nil trimValue_def)
  have rs: "resolvedSnapshot e2 w2 (normalizeNim (form_nim (form (loginScreen w2)))) = Some (Some ?d)"
    using assms(9,6) r2 by simp
  have mm: "data_password ?d \<noteq> Some (form_password (form (loginScreen w2)))"
    using pw assms(7,8) by simp
  from handleAuth_login_mismatch[OF assms(5) v2 rs mm]
  have rej: "rejectedWith e2 w2 InvalidCredentialError"
    and st: "storage (handleAuth e2 w2) = storage w2"
    by (simp_all add: rejectedWith_def)
  have ns: "\<not> succeeded e2 w2"
    using succeeded_cases[of e2 w2] assms(5) rs mm by auto
  have a: "\<forall>m f. (validateForm m f = Some ''Password wajib diisi.'') =
                 (trim (form_nim f) \<noteq> [] \<and> trim (form_password f) = [])"
    using validateForm_password by (simp add: trimValue_def)
  have b: "\<forall>e (w::world). trim (form_password (form (loginScreen w))) = [] \<longrightarrow>
              (\<exists>msg \<in> set validationMessages. handleAuth e w = emit (Alert msg) w)"
  proof (intro allI impI)
    fix e and w :: world
    assume "trim (form_password (form (loginScreen w))) = []"
    then have "validateForm (authMode (loginScreen w)) (form (loginScreen w)) = Some ''NIM wajib diisi.''
      \<or> validateForm (authMode (loginScreen w)) (form (loginScreen w)) = Some ''Password wajib diisi.''"
      by (intro validateForm_blank_password) (simp add: trimValue_def)
    then show "\<exists>msg \<in> set validationMessages. handleAuth e w = emit (Alert msg) w"
      by (auto simp: handleAuth_invalid validationMessages_def)
  qed
  from r2 pw v2 rej ns st a b show ?thesis by blast
qed

theorem credential_whitespace_asymmetry_witness:
  "authMode (loginScreen spacedRegistration) = register
   \<and> form_password (form (loginScreen spacedRegistration)) = '' pw1 ''
   \<and> succeeded online spacedRegistration
   \<and> authMode (loginScreen
         (run (untilLogin ''pw1'') (handleAuth online spacedRegistration))) = login
   \<and> form_password (form (loginScreen
         (run (untilLogin ''pw1'') (handleAuth online spacedRegistration)))) = trim '' pw1 ''
   \<and> trim '' pw1 '' \<noteq> '' pw1 ''
   \<and> rejectedWith online (run (untilLogin ''pw1'') (handleAuth online spacedRegistration))
         InvalidCredentialError
   \<and> trim (form_password (form (loginScreen
         (run (untilLogin ''  '') (handleAuth online spacedRegistration))))) = []
   \<and> (\<exists>msg \<in> set validationMessages.
        handleAuth online (run (untilLogin ''  '') (handleAuth online spacedRegistration)) =
        emit (Alert msg) (run (untilLogin ''  '') (handleAuth online spacedRegistration)))"
proof -
  let ?w2 = "run (untilLogin ''pw1'') (handleAuth online spacedRegistration)"
  let ?w3 = "run (untilLogin ''  '') (handleAuth online spacedRegistration)"
  have h1: "authMode (loginScreen spacedRegistration) = register"
    by code_simp
  have h2: "form_password (form (loginScreen spacedRegistration)) = '' pw1 ''"
    by code_simp
  have h3: "succeeded online spacedRegistration"
    by code_simp
  have h5: "authMode (loginScreen ?w2) = login"
    by code_simp
  have h6: "normalizeNim (form_nim (form (loginScreen ?w2))) =
            normalizeNim (form_nim (form (loginScreen spacedRegistration)))"
    by code_simp
  have h7: "form_password (form (loginScreen ?w2)) = trim '' pw1 ''"
    by code_simp
  have h8: "trim '' pw1 '' \<noteq> '' pw1 ''"
    by code_simp
  have h9: "resolvedSnapshot online ?w2 (normalizeNim (form_nim (form (loginScreen ?w2)))) =
            Some (remote ?w2 (normalizeNim (form_nim (form (loginScreen ?w2)))))"
    by (simp add: resolvedSnapshot_cases online_def)
  have b: "trim (form_password (form (loginScreen ?w3))) = []"
    by code_simp
  from credential_whitespace_asymmetry[OF h1 h2 h3 refl h5 h6 h7 h8 h9]
       h1 h2 h3 h5 h7 h8 b
  show ?thesis by blast
qed

end
